theory Spec2Isabelle
  imports Complex_Main
begin

section \<open>Errors\<close>

text \<open>
  Every exception the script can raise is a value. A Python \<open>KeyError\<close> carries the
  place it was raised at (a column of the table, a vocabulary, one of the fixed feature
  tables) and the key that was missing. Failures inside the external libraries
  (RDKit, numpy, h5py) are separate constructors.
\<close>

datatype origin = Column | Vocabulary | FeatureTable | Container

datatype error =
    KeyError origin string
  | IndexError
  | ParseError
  | EmbeddingError
  | ConformerRangeError
  | CastError
  | NameError
  | ValueError string

definition ebind :: "error + 'a \<Rightarrow> ('a \<Rightarrow> error + 'b) \<Rightarrow> error + 'b" where
  "ebind m f = (case m of Inl e \<Rightarrow> Inl e | Inr x \<Rightarrow> f x)"

definition lookup :: "origin \<Rightarrow> (string \<rightharpoonup> 'v) \<Rightarrow> string \<Rightarrow> error + 'v" where
  "lookup og d k = (case d k of None \<Rightarrow> Inl (KeyError og k) | Some v \<Rightarrow> Inr v)"

definition index :: "'a list \<Rightarrow> nat \<Rightarrow> error + 'a" where
  "index xs i = (if i < length xs then Inr (xs ! i) else Inl IndexError)"

section \<open>Molecules of the chemistry toolkit\<close>

text \<open>
  What the script reads from an RDKit molecule: for each atom its symbol, ring
  membership, hybridisation (as the string \<open>str\<close> gives) and aromaticity; for each
  bond its two atom indices; and the positions of the embedded conformer.
\<close>

record atom =
  GetSymbol :: string
  IsInRing :: bool
  GetHybridization :: string
  GetIsAromatic :: bool

record bond =
  GetBeginAtomIdx :: nat
  GetEndAtomIdx :: nat

record mol =
  GetAtoms :: "atom list"
  GetBonds :: "bond list"

type_synonym 'f Point3D = "'f \<times> 'f \<times> 'f"

definition str_bool :: "bool \<Rightarrow> string" where
  "str_bool b = (if b then ''True'' else ''False'')"

definition list_of_point :: "'f Point3D \<Rightarrow> 'f list" where
  "list_of_point p = (case p of (x, y, z) \<Rightarrow> [x, y, z])"

section \<open>The environment of the script\<close>

text \<open>
  The constants and helpers the script imports from \<open>minisci.utils\<close>, and the
  operations of RDKit, scipy, Python and h5py it calls, are parameters of the model.
  \<open>'c\<close> is the type of a cell of the input table, \<open>'f\<close> the type of a floating-point
  number, \<open>'r\<close> the type of the states of RDKit's process-wide random source. A library
  call that raises returns \<open>None\<close>.

  \<^item> \<open>MolFromSmiles_AddHs\<close>: \<open>Chem.AddHs(Chem.MolFromSmiles(smi))\<close>;
  \<^item> \<open>EmbedMolecule_UFF\<close>: \<open>AllChem.EmbedMolecule(mol, n)\<close> followed by
    \<open>AllChem.UFFOptimizeMolecule(mol)\<close>, giving the conformer's positions. RDKit's
    signature is \<open>EmbedMolecule(mol, maxAttempts=0, randomSeed=-1, ...)\<close>: the second
    positional argument is the number of attempts, and with \<open>randomSeed\<close> left at \<open>-1\<close>
    the embedding draws from the process-wide random source. The model takes the state
    of that source before the call and returns its state after the call;
  \<^item> \<open>MorganFingerprint\<close>: \<open>GetMorganFingerprintAsBitVect(mol, 2, nBits=256)\<close>;
  \<^item> \<open>pdist_metric\<close>: the distance \<open>pdist\<close> computes for two rows;
  \<^item> \<open>py_str\<close>, \<open>py_float\<close>, \<open>py_add\<close>: \<open>str(x)\<close>, \<open>float(x)\<close>, \<open>x + y\<close> on cells;
  \<^item> \<open>list_set\<close>: \<open>list(set(xs))\<close>, whose order Python leaves open;
  \<^item> \<open>h5_name\<close>: the name h5py accepts for a group keyed by a cell.
\<close>

record ('c, 'f, 'r) env =
  ATOMTYPE_DICT :: "string \<rightharpoonup> int"
  IS_RING_DICT :: "string \<rightharpoonup> int"
  HYBRIDISATION_DICT :: "string \<rightharpoonup> int"
  AROMATOCITY_DICT :: "string \<rightharpoonup> int"
  get_dict_for_embedding :: "string list \<Rightarrow> (string \<rightharpoonup> int)"
  MolFromSmiles_AddHs :: "string \<Rightarrow> mol option"
  EmbedMolecule_UFF :: "mol \<Rightarrow> int \<Rightarrow> 'r \<Rightarrow> 'f Point3D list option \<times> 'r"
  MorganFingerprint :: "mol \<Rightarrow> bool list"
  pdist_metric :: "'f list \<Rightarrow> 'f list \<Rightarrow> 'f"
  py_str :: "'c \<Rightarrow> string"
  py_float :: "'c \<Rightarrow> 'f option"
  py_add :: "'c \<Rightarrow> 'c \<Rightarrow> 'c option"
  list_set :: "string list \<Rightarrow> string list"
  h5_name :: "'c \<Rightarrow> string option"

section \<open>The featurizer \<open>get_3dG_from_smi\<close>\<close>

record 'f features =
  atomids :: "int list"
  is_ring :: "int list"
  hyb :: "int list"
  arom :: "int list"
  edge_2d :: "nat list \<times> nat list"
  edge_3d :: "nat list \<times> nat list"
  crds_3d :: "'f list list"
  tokeep :: "int list"

record 'f atom_acc =
  acc_atomids :: "int list"
  acc_is_ring :: "int list"
  acc_hyb :: "int list"
  acc_arom :: "int list"
  acc_crds_3d :: "'f list list"
  acc_tokeep :: "int list"

definition empty_acc :: "'f atom_acc" where
  "empty_acc = \<lparr>acc_atomids = [], acc_is_ring = [], acc_hyb = [], acc_arom = [],
                 acc_crds_3d = [], acc_tokeep = []\<rparr>"

definition GetAtomPosition :: "'f Point3D list \<Rightarrow> nat \<Rightarrow> error + 'f Point3D" where
  "GetAtomPosition conf idx =
     (if idx < length conf then Inr (conf ! idx) else Inl ConformerRangeError)"

text \<open>The body of the loop over the atoms (lines 46 to 60), for atom \<open>i\<close> at index \<open>idx\<close>.\<close>

definition atom_step ::
  "('c, 'f, 'r) env \<Rightarrow> 'f Point3D list \<Rightarrow> nat \<Rightarrow> atom \<Rightarrow> 'f atom_acc \<Rightarrow> error + 'f atom_acc" where
  "atom_step E conf idx i acc =
     ebind (lookup FeatureTable (ATOMTYPE_DICT E) (GetSymbol i)) (\<lambda>a.
     ebind (lookup FeatureTable (IS_RING_DICT E) (str_bool (IsInRing i))) (\<lambda>r.
     ebind (lookup FeatureTable (HYBRIDISATION_DICT E) (GetHybridization i)) (\<lambda>h.
     ebind (lookup FeatureTable (AROMATOCITY_DICT E) (str_bool (GetIsAromatic i))) (\<lambda>ar.
     ebind (GetAtomPosition conf idx) (\<lambda>p.
       Inr \<lparr>acc_atomids = acc_atomids acc @ [a],
            acc_is_ring = acc_is_ring acc @ [r],
            acc_hyb = acc_hyb acc @ [h],
            acc_arom = acc_arom acc @ [ar],
            acc_crds_3d = acc_crds_3d acc @ [list_of_point p],
            acc_tokeep = acc_tokeep acc @
              [if a = 1 \<and> r = 0 \<and> ar = 0 \<and> h = 1 then 1 else 0]\<rparr>)))))"

fun atom_loop ::
  "('c, 'f, 'r) env \<Rightarrow> 'f Point3D list \<Rightarrow> (nat \<times> atom) list \<Rightarrow> 'f atom_acc \<Rightarrow> error + 'f atom_acc" where
  "atom_loop E conf [] acc = Inr acc"
| "atom_loop E conf ((idx, i) # rest) acc =
     (case atom_step E conf idx i acc of
        Inl e \<Rightarrow> Inl e
      | Inr acc' \<Rightarrow> atom_loop E conf rest acc')"

text \<open>The loop over the bonds (lines 70 to 78), and \<open>np.array([edge_dir1, edge_dir2])\<close>.\<close>

fun bond_loop :: "bond list \<Rightarrow> nat list \<times> nat list \<Rightarrow> nat list \<times> nat list" where
  "bond_loop [] (edge_dir1, edge_dir2) = (edge_dir1, edge_dir2)"
| "bond_loop (b # rest) (edge_dir1, edge_dir2) =
     (let a2 = GetEndAtomIdx b; a1 = GetBeginAtomIdx b
      in bond_loop rest (edge_dir1 @ [a1, a2], edge_dir2 @ [a2, a1]))"

text \<open>
  The distance matrix (lines 83 to 85). An entry is a floating-point number or the
  infinity \<open>fill_diagonal\<close> writes; \<open>inf <= 4\<close> is false. \<open>squareform(pdist(X))\<close> holds
  the metric of rows \<open>i\<close> and \<open>j\<close>, computed once for \<open>i < j\<close> and mirrored, and zero on
  the diagonal; \<open>pdist\<close> refuses an array that is not two-dimensional, which is what
  \<open>np.array\<close> makes of an empty list of positions.
\<close>

datatype 'f entry = Fin 'f | PInf

definition squareform_pdist ::
  "('f list \<Rightarrow> 'f list \<Rightarrow> 'f) \<Rightarrow> ('f::zero) list list \<Rightarrow> error + 'f entry list list" where
  "squareform_pdist d X =
     (if X = [] then Inl (ValueError ''A 2-dimensional array must be passed.'')
      else Inr (map (\<lambda>i. map (\<lambda>j.
             if i = j then Fin 0
             else if i < j then Fin (d (X ! i) (X ! j))
             else Fin (d (X ! j) (X ! i))) [0..<length X]) [0..<length X]))"

definition fill_diagonal :: "'a list list \<Rightarrow> 'a \<Rightarrow> 'a list list" where
  "fill_diagonal M v = map (\<lambda>(i, row). row[i := v]) (enumerate 0 M)"

definition le_4 :: "('f::{ord,numeral}) entry \<Rightarrow> bool" where
  "le_4 x = (case x of Fin d \<Rightarrow> d \<le> 4 | PInf \<Rightarrow> False)"

definition np_where :: "('a \<Rightarrow> bool) \<Rightarrow> 'a list list \<Rightarrow> (nat \<times> nat) list" where
  "np_where P M =
     concat (map (\<lambda>(i, row). map (\<lambda>(j, x). (i, j)) (filter (\<lambda>(j, x). P x) (enumerate 0 row)))
                 (enumerate 0 M))"

definition vstack :: "(nat \<times> nat) list \<Rightarrow> nat list \<times> nat list" where
  "vstack ps = (map fst ps, map snd ps)"

text \<open>
  The featurizer (lines 31 to 96). The value it is given as \<open>randomSeed\<close> goes to
  \<open>EmbedMolecule\<close> as the second positional argument (line 43); the state of the random
  source is taken and returned. A descriptor that does not parse makes \<open>AddHs\<close> raise,
  and a failed embedding makes \<open>UFFOptimizeMolecule\<close> raise.
\<close>

definition get_3dG_from_smi ::
  "('c, 'f::{zero,ord,numeral}, 'r) env \<Rightarrow> string \<Rightarrow> int \<Rightarrow> 'r
     \<Rightarrow> (error + 'f features) \<times> 'r" where
  "get_3dG_from_smi E smi randomSeed rng =
     (case MolFromSmiles_AddHs E smi of
        None \<Rightarrow> (Inl ParseError, rng)
      | Some mol \<Rightarrow>
     (case EmbedMolecule_UFF E mol randomSeed rng of
        (None, rng') \<Rightarrow> (Inl EmbeddingError, rng')
      | (Some conf, rng') \<Rightarrow>
     (ebind (atom_loop E conf (enumerate 0 (GetAtoms mol)) empty_acc) (\<lambda>acc.
      ebind (squareform_pdist (pdist_metric E) (acc_crds_3d acc)) (\<lambda>distance_matrix.
        Inr \<lparr>atomids = acc_atomids acc,
             is_ring = acc_is_ring acc,
             hyb = acc_hyb acc,
             arom = acc_arom acc,
             edge_2d = bond_loop (GetBonds mol) ([], []),
             edge_3d = vstack (np_where le_4 (fill_diagonal distance_matrix PInf)),
             crds_3d = acc_crds_3d acc,
             tokeep = acc_tokeep acc\<rparr>)), rng')))"

text \<open>The edges of a two-row index array: column \<open>k\<close> is the pair of its two rows at \<open>k\<close>.\<close>

definition edges :: "nat list \<times> nat list \<Rightarrow> (nat \<times> nat) set" where
  "edges a = set (zip (fst a) (snd a))"

section \<open>The containers\<close>

text \<open>
  An h5 file maps the name of a group to the datasets of the group, in the order they
  were created. \<open>create_group\<close> and \<open>create_dataset\<close> raise when the name is taken.
  A name is one key: the path separator of h5py names is not modelled.
\<close>

datatype ('c, 'f) dataset =
    IntArray "int list"
  | EdgeArray "nat list \<times> nat list"
  | CoordArray "'f list list"
  | BitRows "bool list list"
  | FloatArray "'f list"
  | CellArray "'c list"

type_synonym ('c, 'f) group = "(string \<times> ('c, 'f) dataset) list"

type_synonym ('c, 'f) h5file = "string \<rightharpoonup> ('c, 'f) group"

definition create_group :: "('c, 'f) h5file \<Rightarrow> string \<Rightarrow> error + ('c, 'f) h5file" where
  "create_group f name =
     (case f name of
        Some _ \<Rightarrow> Inl (ValueError ''Unable to create group (name already exists)'')
      | None \<Rightarrow> Inr (f(name \<mapsto> [])))"

definition create_dataset ::
  "('c, 'f) h5file \<Rightarrow> string \<Rightarrow> string \<Rightarrow> ('c, 'f) dataset \<Rightarrow> error + ('c, 'f) h5file" where
  "create_dataset f key name data =
     (case f key of
        None \<Rightarrow> Inl (KeyError Container key)
      | Some g \<Rightarrow>
          if name \<in> set (map fst g)
          then Inl (ValueError ''Unable to create dataset (name already exists)'')
          else Inr (f(key \<mapsto> g @ [(name, data)])))"

text \<open>
  A run of \<open>create_dataset\<close> statements on one group, in order. When one of them raises,
  the file keeps what was written before.
\<close>

fun create_datasets ::
  "('c, 'f) h5file \<Rightarrow> string \<Rightarrow> (string \<times> ('c, 'f) dataset) list
     \<Rightarrow> ('c, 'f) h5file \<times> error option" where
  "create_datasets f key [] = (f, None)"
| "create_datasets f key ((name, data) # rest) =
     (case create_dataset f key name data of
        Inl e \<Rightarrow> (f, Some e)
      | Inr f' \<Rightarrow> create_datasets f' key rest)"

section \<open>The input table\<close>

text \<open>
  A data frame maps a column name to the cells of the column; \<open>df[name]\<close> raises
  \<open>KeyError\<close> for a column the table does not have. The record holds the lists the
  script reads (lines 103 to 134) under the script's names; the categorical columns are
  mapped through \<open>str\<close>.
\<close>

type_synonym 'c DataFrame = "string \<rightharpoonup> 'c list"

record 'c columns =
  rxn_id :: "'c list"
  temperature_degC :: "'c list"
  time_h :: "'c list"
  atmosphere :: "string list"
  scale_mol :: "'c list"
  concentration_moll :: "'c list"
  startingmat_1_smiles :: "string list"
  startingmat_2_smiles :: "string list"
  startingmat_2_eq :: "'c list"
  reagent_1_smiles :: "string list"
  reagent_1_eq :: "'c list"
  catalyst_1_smiles :: "string list"
  catalyst_1_eq :: "'c list"
  additive_1_smiles :: "string list"
  additive_1_eq :: "'c list"
  solvent_1_smiles :: "string list"
  solvent_1_fraction :: "'c list"
  solvent_2_smiles :: "string list"
  solvent_2_fraction :: "'c list"
  product_mono :: "'c list"
  product_di :: "'c list"
  product_non :: "'c list"
  binary :: "'c list"

definition read_columns :: "('c, 'f, 'r) env \<Rightarrow> 'c DataFrame \<Rightarrow> error + 'c columns" where
  "read_columns E df =
     ebind (lookup Column df ''rxn_id'') (\<lambda>c1.
     ebind (lookup Column df ''temperature_deg_c'') (\<lambda>c2.
     ebind (lookup Column df ''time_h'') (\<lambda>c3.
     ebind (lookup Column df ''atmosphere'') (\<lambda>c4.
     ebind (lookup Column df ''scale_umol'') (\<lambda>c5.
     ebind (lookup Column df ''concentration_mmol_l'') (\<lambda>c6.
     ebind (lookup Column df ''startingmat_1_smiles'') (\<lambda>c7.
     ebind (lookup Column df ''startingmat_2_smiles'') (\<lambda>c8.
     ebind (lookup Column df ''startingmat_2_eq'') (\<lambda>c9.
     ebind (lookup Column df ''reagent_1_smiles'') (\<lambda>c10.
     ebind (lookup Column df ''reagent_1_eq'') (\<lambda>c11.
     ebind (lookup Column df ''catalyst_1_smiles'') (\<lambda>c12.
     ebind (lookup Column df ''catalyst_1_eq'') (\<lambda>c13.
     ebind (lookup Column df ''additive_1_smiles'') (\<lambda>c14.
     ebind (lookup Column df ''additive_1_eq'') (\<lambda>c15.
     ebind (lookup Column df ''solvent_1_smiles'') (\<lambda>c16.
     ebind (lookup Column df ''solvent_1_fraction'') (\<lambda>c17.
     ebind (lookup Column df ''solvent_2_smiles'') (\<lambda>c18.
     ebind (lookup Column df ''solvent_2_fraction'') (\<lambda>c19.
     ebind (lookup Column df ''product_mono'') (\<lambda>c20.
     ebind (lookup Column df ''product_di'') (\<lambda>c21.
     ebind (lookup Column df ''product_non'') (\<lambda>c22.
     ebind (lookup Column df ''binary'') (\<lambda>c23.
       Inr \<lparr>rxn_id = c1,
            temperature_degC = c2,
            time_h = c3,
            atmosphere = map (py_str E) c4,
            scale_mol = c5,
            concentration_moll = c6,
            startingmat_1_smiles = map (py_str E) c7,
            startingmat_2_smiles = map (py_str E) c8,
            startingmat_2_eq = c9,
            reagent_1_smiles = map (py_str E) c10,
            reagent_1_eq = c11,
            catalyst_1_smiles = map (py_str E) c12,
            catalyst_1_eq = c13,
            additive_1_smiles = map (py_str E) c14,
            additive_1_eq = c15,
            solvent_1_smiles = map (py_str E) c16,
            solvent_1_fraction = c17,
            solvent_2_smiles = map (py_str E) c18,
            solvent_2_fraction = c19,
            product_mono = c20,
            product_di = c21,
            product_non = c22,
            binary = c23\<rparr>)))))))))))))))))))))))"

text \<open>
  The columns the script reads, in the order it reads them.
\<close>

definition required_columns :: "string list" where
  "required_columns =
     [''rxn_id'', ''temperature_deg_c'', ''time_h'', ''atmosphere'', ''scale_umol'',
      ''concentration_mmol_l'', ''startingmat_1_smiles'', ''startingmat_2_smiles'',
      ''startingmat_2_eq'', ''reagent_1_smiles'', ''reagent_1_eq'', ''catalyst_1_smiles'',
      ''catalyst_1_eq'', ''additive_1_smiles'', ''additive_1_eq'', ''solvent_1_smiles'',
      ''solvent_1_fraction'', ''solvent_2_smiles'', ''solvent_2_fraction'', ''product_mono'',
      ''product_di'', ''product_non'', ''binary'']"

section \<open>Vocabularies and the combined target\<close>

text \<open>
  Lines 138 to 143: one vocabulary for each of the six categorical columns.
\<close>

record vocabularies =
  rea_dict :: "string \<rightharpoonup> int"
  so1_dict :: "string \<rightharpoonup> int"
  so2_dict :: "string \<rightharpoonup> int"
  cat_dict :: "string \<rightharpoonup> int"
  add_dict :: "string \<rightharpoonup> int"
  atm_dict :: "string \<rightharpoonup> int"

definition build_vocabularies :: "('c, 'f, 'r) env \<Rightarrow> 'c columns \<Rightarrow> vocabularies" where
  "build_vocabularies E T =
     \<lparr>rea_dict = get_dict_for_embedding E (reagent_1_smiles T),
      so1_dict = get_dict_for_embedding E (solvent_1_smiles T),
      so2_dict = get_dict_for_embedding E (solvent_2_smiles T),
      cat_dict = get_dict_for_embedding E (catalyst_1_smiles T),
      add_dict = get_dict_for_embedding E (additive_1_smiles T),
      atm_dict = get_dict_for_embedding E (atmosphere T)\<rparr>"

definition to_float :: "('c, 'f, 'r) env \<Rightarrow> 'c \<Rightarrow> error + 'f" where
  "to_float E c = (case py_float E c of None \<Rightarrow> Inl CastError | Some v \<Rightarrow> Inr v)"

definition plus_cells :: "('c, 'f, 'r) env \<Rightarrow> 'c \<Rightarrow> 'c \<Rightarrow> error + 'c" where
  "plus_cells E x y = (case py_add E x y of None \<Rightarrow> Inl CastError | Some s \<Rightarrow> Inr s)"

text \<open>
  Line 164: \<open>[float(product_mono[i] + product_di[i]) for i, x in enumerate(product_mono)]\<close>.
\<close>

fun product_all_loop ::
  "('c, 'f, 'r) env \<Rightarrow> 'c list \<Rightarrow> 'c list \<Rightarrow> (nat \<times> 'c) list \<Rightarrow> error + 'f list" where
  "product_all_loop E monos dis [] = Inr []"
| "product_all_loop E monos dis ((i, x) # rest) =
     ebind (index monos i) (\<lambda>m.
     ebind (index dis i) (\<lambda>d.
     ebind (plus_cells E m d) (\<lambda>s.
     ebind (to_float E s) (\<lambda>y.
     ebind (product_all_loop E monos dis rest) (\<lambda>ys. Inr (y # ys))))))"

text \<open>Lines 177 to 179: the reaction id mapped to its two reactant descriptors.\<close>

fun rxn_smi_loop ::
  "string list \<Rightarrow> string list \<Rightarrow> (nat \<times> 'c) list \<Rightarrow> ('c \<rightharpoonup> string list)
     \<Rightarrow> error + ('c \<rightharpoonup> string list)" where
  "rxn_smi_loop s1 s2 [] rxn_smi_dict = Inr rxn_smi_dict"
| "rxn_smi_loop s1 s2 ((i, rxn) # rest) rxn_smi_dict =
     ebind (index s1 i) (\<lambda>a.
     ebind (index s2 i) (\<lambda>b.
       rxn_smi_loop s1 s2 rest (rxn_smi_dict(rxn \<mapsto> [a, b]))))"

section \<open>The molecule containers\<close>

text \<open>
  Every call of the featurizer is recorded, with the container it is made for
  (1 for the substrates, 2 for the carboxylic acids), the descriptor and the seed. The
  state of the process is this trace and the state of the random source.
\<close>

type_synonym trace = "(nat \<times> string \<times> int) list"

type_synonym 'r process = "trace \<times> 'r"

definition call_featurizer ::
  "('c, 'f::{zero,ord,numeral}, 'r) env \<Rightarrow> nat \<Rightarrow> string \<Rightarrow> int \<Rightarrow> 'r process
     \<Rightarrow> 'r process \<times> (error + 'f features)" where
  "call_featurizer E role smi randomSeed p =
     (case p of (tr, rng) \<Rightarrow>
     (case get_3dG_from_smi E smi randomSeed rng of
        (result, rng') \<Rightarrow> ((tr @ [(role, smi, randomSeed)], rng'), result)))"

text \<open>
  The eight \<open>create_dataset\<close> lines of one seed of the substrate container (lines 249 to
  256 for the suffix \<open>a\<close>), and the seven of the acid container (lines 363 to 369).
\<close>

definition substrate_datasets ::
  "string \<Rightarrow> 'f features \<Rightarrow> (string \<times> ('c, 'f) dataset) list" where
  "substrate_datasets sfx x =
     [(''atom_id_1_'' @ sfx, IntArray (atomids x)),
      (''ring_id_1_'' @ sfx, IntArray (is_ring x)),
      (''hybr_id_1_'' @ sfx, IntArray (hyb x)),
      (''arom_id_1_'' @ sfx, IntArray (arom x)),
      (''edge_2d_1_'' @ sfx, EdgeArray (edge_2d x)),
      (''edge_3d_1_'' @ sfx, EdgeArray (edge_3d x)),
      (''crds_3d_1_'' @ sfx, CoordArray (crds_3d x)),
      (''to_keep_1_'' @ sfx, IntArray (tokeep x))]"

definition carbacid_datasets ::
  "string \<Rightarrow> 'f features \<Rightarrow> (string \<times> ('c, 'f) dataset) list" where
  "carbacid_datasets sfx x =
     [(''atom_id_2_'' @ sfx, IntArray (atomids x)),
      (''ring_id_2_'' @ sfx, IntArray (is_ring x)),
      (''hybr_id_2_'' @ sfx, IntArray (hyb x)),
      (''arom_id_2_'' @ sfx, IntArray (arom x)),
      (''edge_2d_2_'' @ sfx, EdgeArray (edge_2d x)),
      (''edge_3d_2_'' @ sfx, EdgeArray (edge_3d x)),
      (''crds_3d_2_'' @ sfx, CoordArray (crds_3d x))]"

text \<open>The body of the loop over the unique substrates (lines 187 to 292).\<close>

definition substrate_step ::
  "('c, 'f::{zero,ord,numeral}, 'r) env \<Rightarrow> string \<Rightarrow> ('c, 'f) h5file \<times> 'r process
     \<Rightarrow> (('c, 'f) h5file \<times> 'r process) \<times> error option" where
  "substrate_step E smi s =
     (case s of (lsf_container1, tr0) \<Rightarrow>
     (case call_featurizer E 1 smi 0xF00A tr0 of
        (tr1, Inl e) \<Rightarrow> ((lsf_container1, tr1), Some e)
      | (tr1, Inr a) \<Rightarrow>
     (case call_featurizer E 1 smi 0xF00B tr1 of
        (tr2, Inl e) \<Rightarrow> ((lsf_container1, tr2), Some e)
      | (tr2, Inr b) \<Rightarrow>
     (case call_featurizer E 1 smi 0xF00C tr2 of
        (tr3, Inl e) \<Rightarrow> ((lsf_container1, tr3), Some e)
      | (tr3, Inr c) \<Rightarrow>
     (case call_featurizer E 1 smi 0xF00D tr3 of
        (tr4, Inl e) \<Rightarrow> ((lsf_container1, tr4), Some e)
      | (tr4, Inr d) \<Rightarrow>
     (case call_featurizer E 1 smi 0xF00E tr4 of
        (tr5, Inl e) \<Rightarrow> ((lsf_container1, tr5), Some e)
      | (tr5, Inr e) \<Rightarrow>
     (case create_group lsf_container1 smi of
        Inl err \<Rightarrow> ((lsf_container1, tr5), Some err)
      | Inr f \<Rightarrow>
     (case create_datasets f smi
             (substrate_datasets ''a'' a @ substrate_datasets ''b'' b @
              substrate_datasets ''c'' c @ substrate_datasets ''d'' d @
              substrate_datasets ''e'' e) of
        (f', err) \<Rightarrow> ((f', tr5), err)))))))))"

fun substrate_loop ::
  "('c, 'f::{zero,ord,numeral}, 'r) env \<Rightarrow> string list \<Rightarrow> ('c, 'f) h5file \<times> 'r process
     \<Rightarrow> (('c, 'f) h5file \<times> 'r process) \<times> error option" where
  "substrate_loop E [] s = (s, None)"
| "substrate_loop E (smi # rest) s =
     (case substrate_step E smi s of
        (s', Some e) \<Rightarrow> (s', Some e)
      | (s', None) \<Rightarrow> substrate_loop E rest s')"

text \<open>The body of the loop over the unique carboxylic acids (lines 302 to 401).\<close>

definition carbacid_step ::
  "('c, 'f::{zero,ord,numeral}, 'r) env \<Rightarrow> string \<Rightarrow> ('c, 'f) h5file \<times> 'r process
     \<Rightarrow> (('c, 'f) h5file \<times> 'r process) \<times> error option" where
  "carbacid_step E smi s =
     (case s of (lsf_container2, tr0) \<Rightarrow>
     (case call_featurizer E 2 smi 0xF00A tr0 of
        (tr1, Inl e) \<Rightarrow> ((lsf_container2, tr1), Some e)
      | (tr1, Inr a) \<Rightarrow>
     (case call_featurizer E 2 smi 0xF00B tr1 of
        (tr2, Inl e) \<Rightarrow> ((lsf_container2, tr2), Some e)
      | (tr2, Inr b) \<Rightarrow>
     (case call_featurizer E 2 smi 0xF00C tr2 of
        (tr3, Inl e) \<Rightarrow> ((lsf_container2, tr3), Some e)
      | (tr3, Inr c) \<Rightarrow>
     (case call_featurizer E 2 smi 0xF00D tr3 of
        (tr4, Inl e) \<Rightarrow> ((lsf_container2, tr4), Some e)
      | (tr4, Inr d) \<Rightarrow>
     (case call_featurizer E 2 smi 0xF00E tr4 of
        (tr5, Inl e) \<Rightarrow> ((lsf_container2, tr5), Some e)
      | (tr5, Inr e) \<Rightarrow>
     (case create_group lsf_container2 smi of
        Inl err \<Rightarrow> ((lsf_container2, tr5), Some err)
      | Inr f \<Rightarrow>
     (case create_datasets f smi
             (carbacid_datasets ''a'' a @ carbacid_datasets ''b'' b @
              carbacid_datasets ''c'' c @ carbacid_datasets ''d'' d @
              carbacid_datasets ''e'' e) of
        (f', err) \<Rightarrow> ((f', tr5), err)))))))))"

fun carbacid_loop ::
  "('c, 'f::{zero,ord,numeral}, 'r) env \<Rightarrow> string list \<Rightarrow> ('c, 'f) h5file \<times> 'r process
     \<Rightarrow> (('c, 'f) h5file \<times> 'r process) \<times> error option" where
  "carbacid_loop E [] s = (s, None)"
| "carbacid_loop E (smi # rest) s =
     (case carbacid_step E smi s of
        (s', Some e) \<Rightarrow> (s', Some e)
      | (s', None) \<Rightarrow> carbacid_loop E rest s')"

section \<open>The reaction container\<close>

text \<open>
  Lines 23 to 28.
\<close>

definition get_fp_from_smi :: "('c, 'f, 'r) env \<Rightarrow> string \<Rightarrow> error + bool list" where
  "get_fp_from_smi E smi =
     (case MolFromSmiles_AddHs E smi of
        None \<Rightarrow> Inl ParseError
      | Some mol \<Rightarrow> Inr (MorganFingerprint E mol))"

record 'f reaction_values =
  smi1 :: string
  smi2 :: string
  rgt_eq :: 'f
  sm2_eq :: 'f
  conc_m :: 'f
  tmp_de :: 'f
  hours' :: 'f
  scale' :: 'f
  cat_eq :: 'f
  add_eq :: 'f
  sol_f1 :: 'f
  sol_f2 :: 'f
  rea_id :: int
  so1_id :: int
  so2_id :: int
  cat_id :: int
  add_id :: int
  atm_id :: int
  ecfp4_2_1 :: "bool list"
  ecfp4_2_2 :: "bool list"

definition float_at :: "('c, 'f, 'r) env \<Rightarrow> 'c list \<Rightarrow> nat \<Rightarrow> error + 'f" where
  "float_at E xs idx = ebind (index xs idx) (to_float E)"

definition id_at :: "(string \<rightharpoonup> int) \<Rightarrow> string list \<Rightarrow> nat \<Rightarrow> error + int" where
  "id_at d xs idx = ebind (index xs idx) (lookup Vocabulary d)"

text \<open>
  Lines 410 to 432: what one row computes before it writes. The fields \<open>hours'\<close> and
  \<open>scale'\<close> are the script's \<open>hours_\<close> and \<open>scale_\<close>.
\<close>

definition reaction_row ::
  "('c, 'f, 'r) env \<Rightarrow> 'c columns \<Rightarrow> vocabularies \<Rightarrow> nat \<Rightarrow> error + 'f reaction_values" where
  "reaction_row E T V idx =
     ebind (index (startingmat_1_smiles T) idx) (\<lambda>v1.
     ebind (index (startingmat_2_smiles T) idx) (\<lambda>v2.
     ebind (float_at E (reagent_1_eq T) idx) (\<lambda>v3.
     ebind (float_at E (startingmat_2_eq T) idx) (\<lambda>v4.
     ebind (float_at E (concentration_moll T) idx) (\<lambda>v5.
     ebind (float_at E (temperature_degC T) idx) (\<lambda>v6.
     ebind (float_at E (time_h T) idx) (\<lambda>v7.
     ebind (float_at E (scale_mol T) idx) (\<lambda>v8.
     ebind (float_at E (catalyst_1_eq T) idx) (\<lambda>v9.
     ebind (float_at E (additive_1_eq T) idx) (\<lambda>v10.
     ebind (float_at E (solvent_1_fraction T) idx) (\<lambda>v11.
     ebind (float_at E (solvent_2_fraction T) idx) (\<lambda>v12.
     ebind (id_at (rea_dict V) (reagent_1_smiles T) idx) (\<lambda>v13.
     ebind (id_at (so1_dict V) (solvent_1_smiles T) idx) (\<lambda>v14.
     ebind (id_at (so2_dict V) (solvent_2_smiles T) idx) (\<lambda>v15.
     ebind (id_at (cat_dict V) (catalyst_1_smiles T) idx) (\<lambda>v16.
     ebind (id_at (add_dict V) (additive_1_smiles T) idx) (\<lambda>v17.
     ebind (id_at (atm_dict V) (atmosphere T) idx) (\<lambda>v18.
     ebind (get_fp_from_smi E v1) (\<lambda>v19.
     ebind (get_fp_from_smi E v2) (\<lambda>v20.
       Inr \<lparr>smi1 = v1, smi2 = v2, rgt_eq = v3, sm2_eq = v4, conc_m = v5, tmp_de = v6,
            hours' = v7, scale' = v8, cat_eq = v9, add_eq = v10, sol_f1 = v11, sol_f2 = v12,
            rea_id = v13, so1_id = v14, so2_id = v15, cat_id = v16, add_id = v17,
            atm_id = v18, ecfp4_2_1 = v19, ecfp4_2_2 = v20\<rparr>))))))))))))))))))))"

text \<open>Lines 440 to 460: the fingerprints, the conditions and the categorical ids.\<close>

definition condition_datasets :: "'f reaction_values \<Rightarrow> (string \<times> ('c, 'f) dataset) list" where
  "condition_datasets r =
     [(''ecfp4_2_1'', BitRows [ecfp4_2_1 r]),
      (''ecfp4_2_2'', BitRows [ecfp4_2_2 r]),
      (''rgt_eq'', FloatArray [rgt_eq r]),
      (''sm2_eq'', FloatArray [sm2_eq r]),
      (''conc_m'', FloatArray [conc_m r]),
      (''tmp_de'', FloatArray [tmp_de r]),
      (''hours_'', FloatArray [hours' r]),
      (''scale_'', FloatArray [scale' r]),
      (''cat_eq'', FloatArray [cat_eq r]),
      (''add_eq'', FloatArray [add_eq r]),
      (''sol_f1'', FloatArray [sol_f1 r]),
      (''sol_f2'', FloatArray [sol_f2 r]),
      (''rea_id'', IntArray [rea_id r]),
      (''so1_id'', IntArray [so1_id r]),
      (''so2_id'', IntArray [so2_id r]),
      (''cat_id'', IntArray [cat_id r]),
      (''add_id'', IntArray [add_id r]),
      (''atm_id'', IntArray [atm_id r])]"

text \<open>
  The body of the loop over the reactions (lines 409 to 464). \<open>create_group\<close> needs a
  name for the reaction id; the two targets are read from their lists when they are
  written (lines 463 and 464).
\<close>

definition reaction_step ::
  "('c, 'f, 'r) env \<Rightarrow> 'c columns \<Rightarrow> vocabularies \<Rightarrow> 'f list \<Rightarrow> nat \<Rightarrow> 'c \<Rightarrow> ('c, 'f) h5file
     \<Rightarrow> ('c, 'f) h5file \<times> error option" where
  "reaction_step E T V product_all idx rxn_key lsf_container =
     (case reaction_row E T V idx of
        Inl e \<Rightarrow> (lsf_container, Some e)
      | Inr r \<Rightarrow>
     (case h5_name E rxn_key of
        None \<Rightarrow> (lsf_container, Some NameError)
      | Some key \<Rightarrow>
     (case create_group lsf_container key of
        Inl e \<Rightarrow> (lsf_container, Some e)
      | Inr f1 \<Rightarrow>
     (case create_datasets f1 key (condition_datasets r) of
        (f2, Some e) \<Rightarrow> (f2, Some e)
      | (f2, None) \<Rightarrow>
     (case index product_all idx of
        Inl e \<Rightarrow> (f2, Some e)
      | Inr y \<Rightarrow>
     (case create_datasets f2 key [(''trg_yld'', FloatArray [y])] of
        (f3, Some e) \<Rightarrow> (f3, Some e)
      | (f3, None) \<Rightarrow>
     (case index (binary T) idx of
        Inl e \<Rightarrow> (f3, Some e)
      | Inr b \<Rightarrow> create_datasets f3 key [(''trg_bin'', CellArray [b])])))))))"

fun reaction_loop ::
  "('c, 'f, 'r) env \<Rightarrow> 'c columns \<Rightarrow> vocabularies \<Rightarrow> 'f list \<Rightarrow> (nat \<times> 'c) list \<Rightarrow> ('c, 'f) h5file
     \<Rightarrow> ('c, 'f) h5file \<times> error option" where
  "reaction_loop E T V product_all [] f = (f, None)"
| "reaction_loop E T V product_all ((idx, rxn_key) # rest) f =
     (case reaction_step E T V product_all idx rxn_key f of
        (f', Some e) \<Rightarrow> (f', Some e)
      | (f', None) \<Rightarrow> reaction_loop E T V product_all rest f')"

section \<open>The run\<close>

text \<open>
  What a run leaves behind: the five output files, each absent until the script creates
  it, and the calls of the featurizer.
  \<^item> \<open>cond_dicts_pt\<close>: \<open>data/lsf_rxn_cond_dicts_{DATASET_NAME}.pt\<close>, the six vocabularies;
  \<^item> \<open>rxn_smi_dict_pt\<close>: \<open>data/rxn_smi_dict_{DATASET_NAME}.pt\<close>;
  \<^item> \<open>substrate_h5\<close>: \<open>data/lsf_rxn_substrate_{DATASET_NAME}.h5\<close>;
  \<^item> \<open>carbacids_h5\<close>: \<open>data/lsf_rxn_carbacids_{DATASET_NAME}.h5\<close>;
  \<^item> \<open>conditions_h5\<close>: \<open>data/lsf_rxn_conditions_{DATASET_NAME}.h5\<close>.
  An h5 file opened for writing exists from then on, whatever happens inside the
  \<open>with\<close> block.
\<close>

record ('c, 'f) world =
  cond_dicts_pt :: "(string \<rightharpoonup> int) list option"
  rxn_smi_dict_pt :: "('c \<rightharpoonup> string list) option"
  substrate_h5 :: "('c, 'f) h5file option"
  carbacids_h5 :: "('c, 'f) h5file option"
  conditions_h5 :: "('c, 'f) h5file option"
  calls :: trace

text \<open>
  The state before the script has created any file.
\<close>

definition no_output :: "('c, 'f) world" where
  "no_output = \<lparr>cond_dicts_pt = None, rxn_smi_dict_pt = None, substrate_h5 = None,
                 carbacids_h5 = None, conditions_h5 = None, calls = []\<rparr>"

text \<open>
  The script (lines 101 to 467), run on a table from a state of the random source. The
  table is read and the vocabularies and the combined target are computed before the
  first file is written; the three containers are then filled one after the other. The
  result is what the run leaves behind and the exception that ended it, if any.
\<close>

definition main ::
  "('c, 'f::{zero,ord,numeral}, 'r) env \<Rightarrow> 'c DataFrame \<Rightarrow> 'r
     \<Rightarrow> ('c, 'f) world \<times> error option" where
  "main E df rng =
     (case read_columns E df of
        Inl e \<Rightarrow> (no_output, Some e)
      | Inr T \<Rightarrow>
     (let V = build_vocabularies E T in
     (case product_all_loop E (product_mono T) (product_di T) (enumerate 0 (product_mono T)) of
        Inl e \<Rightarrow> (no_output, Some e)
      | Inr product_all \<Rightarrow>
     (let w1 = no_output\<lparr>cond_dicts_pt :=
                 Some [rea_dict V, so1_dict V, so2_dict V, cat_dict V, add_dict V, atm_dict V]\<rparr>;
          startingmat_1_unique = list_set E (startingmat_1_smiles T);
          startingmat_2_unique = list_set E (startingmat_2_smiles T)
      in
     (case rxn_smi_loop (startingmat_1_smiles T) (startingmat_2_smiles T)
             (enumerate 0 (rxn_id T)) Map.empty of
        Inl e \<Rightarrow> (w1, Some e)
      | Inr rxn_smi_dict \<Rightarrow>
     (let w2 = w1\<lparr>rxn_smi_dict_pt := Some rxn_smi_dict\<rparr> in
     (case substrate_loop E startingmat_1_unique (Map.empty, [], rng) of
        ((f1, tr1, rng1), Some e) \<Rightarrow> (w2\<lparr>substrate_h5 := Some f1, calls := tr1\<rparr>, Some e)
      | ((f1, tr1, rng1), None) \<Rightarrow>
     (case carbacid_loop E startingmat_2_unique (Map.empty, tr1, rng1) of
        ((f2, tr2, rng2), Some e) \<Rightarrow>
          (w2\<lparr>substrate_h5 := Some f1, carbacids_h5 := Some f2, calls := tr2\<rparr>, Some e)
      | ((f2, tr2, rng2), None) \<Rightarrow>
     (case reaction_loop E T V product_all (enumerate 0 (rxn_id T)) Map.empty of
        (f3, err) \<Rightarrow>
          (w2\<lparr>substrate_h5 := Some f1, carbacids_h5 := Some f2, conditions_h5 := Some f3,
              calls := tr2\<rparr>, err))))))))))"

section \<open>Notions the properties are stated with\<close>

text \<open>
  The distance of two atoms of a conformer, as \<open>pdist\<close> computes it: the metric of the
  position with the lower index and the position with the higher one.
\<close>

definition conformer_distance :: "('f list \<Rightarrow> 'f list \<Rightarrow> 'f) \<Rightarrow> 'f list list \<Rightarrow> nat \<Rightarrow> nat \<Rightarrow> 'f" where
  "conformer_distance d X i j = d (X ! min i j) (X ! max i j)"

text \<open>
  The bonds of a toolkit molecule join atoms of that molecule.
\<close>

definition bonds_in_range :: "mol \<Rightarrow> bool" where
  "bonds_in_range m =
     list_all (\<lambda>b. GetBeginAtomIdx b < length (GetAtoms m) \<and> GetEndAtomIdx b < length (GetAtoms m))
       (GetBonds m)"

text \<open>
  \<open>list(set(xs))\<close> holds the elements of \<open>xs\<close>, in some order.
\<close>

definition python_set :: "('c, 'f, 'r) env \<Rightarrow> bool" where
  "python_set E = (\<forall>xs. set (list_set E xs) = set xs)"

text \<open>
  A vocabulary builder is total when the vocabulary of a column has an id for every value
  of the column.
\<close>

definition vocabulary_total :: "('c, 'f, 'r) env \<Rightarrow> bool" where
  "vocabulary_total E = (\<forall>xs. set xs \<subseteq> dom (get_dict_for_embedding E xs))"

text \<open>
  An error other than the \<open>KeyError\<close> of a vocabulary lookup.
\<close>

definition no_miss :: "error \<Rightarrow> bool" where
  "no_miss e = (\<forall>k. e \<noteq> KeyError Vocabulary k)"

text \<open>
  The two datasets lines 463 and 464 write.
\<close>

definition target_datasets :: "'f \<Rightarrow> 'c \<Rightarrow> (string \<times> ('c, 'f) dataset) list" where
  "target_datasets y b = [(''trg_yld'', FloatArray [y]), (''trg_bin'', CellArray [b])]"

text \<open>
  The datasets a run has written under a key of each container (none when the container
  or the key is missing).
\<close>

definition reaction_section :: "('c, 'f) world \<Rightarrow> string \<Rightarrow> ('c, 'f) group" where
  "reaction_section w key =
     (case conditions_h5 w of
        None \<Rightarrow> []
      | Some f \<Rightarrow> (case f key of None \<Rightarrow> [] | Some g \<Rightarrow> g))"

definition substrate_section :: "('c, 'f) world \<Rightarrow> string \<Rightarrow> ('c, 'f) group" where
  "substrate_section w key =
     (case substrate_h5 w of
        None \<Rightarrow> []
      | Some f \<Rightarrow> (case f key of None \<Rightarrow> [] | Some g \<Rightarrow> g))"

definition carbacid_section :: "('c, 'f) world \<Rightarrow> string \<Rightarrow> ('c, 'f) group" where
  "carbacid_section w key =
     (case carbacids_h5 w of
        None \<Rightarrow> []
      | Some f \<Rightarrow> (case f key of None \<Rightarrow> [] | Some g \<Rightarrow> g))"

text \<open>
  The kinds of field of a reaction section: the two targets by their names, the others
  by what they hold (a fingerprint, a floating-point condition, the id of a category).
\<close>

datatype field_class = Fingerprint | NumericCondition | CategoricalId | Target | Other

fun class_of :: "string \<times> ('c, 'f) dataset \<Rightarrow> field_class" where
  "class_of (name, data) =
     (if name = ''trg_yld'' \<or> name = ''trg_bin'' then Target
      else (case data of
              BitRows _ \<Rightarrow> Fingerprint
            | FloatArray _ \<Rightarrow> NumericCondition
            | IntArray _ \<Rightarrow> CategoricalId
            | _ \<Rightarrow> Other))"

definition count_class :: "field_class \<Rightarrow> ('c, 'f) group \<Rightarrow> nat" where
  "count_class c g = length (filter (\<lambda>nd. class_of nd = c) g)"

text \<open>
  The names of the datasets of a reaction section, in the order they are written.
\<close>

definition reaction_field_names :: "string list" where
  "reaction_field_names =
     [''ecfp4_2_1'', ''ecfp4_2_2'',
      ''rgt_eq'', ''sm2_eq'', ''conc_m'', ''tmp_de'', ''hours_'', ''scale_'', ''cat_eq'',
      ''add_eq'', ''sol_f1'', ''sol_f2'',
      ''rea_id'', ''so1_id'', ''so2_id'', ''cat_id'', ''add_id'', ''atm_id'',
      ''trg_yld'', ''trg_bin'']"

text \<open>
  The layout of a reaction section in the words of the specification: twenty fields, made
  of two fingerprints, eight numeric conditions, six categorical ids and two targets.
\<close>

definition claimed_reaction_layout :: "('c, 'f) group \<Rightarrow> bool" where
  "claimed_reaction_layout g =
     (length g = 20 \<and> count_class Fingerprint g = 2 \<and> count_class NumericCondition g = 8
      \<and> count_class CategoricalId g = 6 \<and> count_class Target g = 2)"

text \<open>
  The names of the datasets of a molecule section: each feature name, the container's
  digit and one of the five suffixes. The acid container has no \<open>to_keep\<close> dataset.
\<close>

definition feature_names :: "string list" where
  "feature_names =
     [''atom_id'', ''ring_id'', ''hybr_id'', ''arom_id'', ''edge_2d'', ''edge_3d'', ''crds_3d'',
      ''to_keep'']"

definition acid_feature_names :: "string list" where
  "acid_feature_names =
     [''atom_id'', ''ring_id'', ''hybr_id'', ''arom_id'', ''edge_2d'', ''edge_3d'', ''crds_3d'']"

definition section_names :: "string \<Rightarrow> string list \<Rightarrow> string list" where
  "section_names role names =
     concat (map (\<lambda>sfx. map (\<lambda>n. n @ ''_'' @ role @ ''_'' @ sfx) names)
               [''a'', ''b'', ''c'', ''d'', ''e''])"

text \<open>
  The five calls of the featurizer for one descriptor, and the seeds of the calls a trace
  holds for a container and a descriptor, in the order of the calls.
\<close>

definition five_calls :: "nat \<Rightarrow> string \<Rightarrow> trace" where
  "five_calls role smi =
     [(role, smi, 0xF00A), (role, smi, 0xF00B), (role, smi, 0xF00C), (role, smi, 0xF00D),
      (role, smi, 0xF00E)]"

definition seeds_called :: "nat \<Rightarrow> string \<Rightarrow> trace \<Rightarrow> int list" where
  "seeds_called role smi tr =
     map (\<lambda>(r, s, seed). seed) (filter (\<lambda>(r, s, seed). r = role \<and> s = smi) tr)"

section \<open>An example environment and an example table\<close>

text \<open>
  Modelled from the spec: \<open>get_dict_for_embedding\<close> is defined in \<open>minisci.utils\<close>, which
  is not among the sources. The specification has it enumerate the distinct values of a
  column in first-seen order and give them sequential ids starting at 0. The loop below
  does that; it is the vocabulary builder of the example environment.
\<close>

fun vocabulary_loop :: "string list \<Rightarrow> (string \<rightharpoonup> int) \<Rightarrow> int \<Rightarrow> (string \<rightharpoonup> int)" where
  "vocabulary_loop [] d n = d"
| "vocabulary_loop (x # xs) d n =
     (case d x of
        None \<Rightarrow> vocabulary_loop xs (d(x \<mapsto> n)) (n + 1)
      | Some _ \<Rightarrow> vocabulary_loop xs d n)"

text \<open>
  Modelled from the spec: the vocabulary of a column, built from the empty dictionary.
\<close>

definition first_seen_ids :: "string list \<Rightarrow> (string \<rightharpoonup> int)" where
  "first_seen_ids xs = vocabulary_loop xs Map.empty 0"

text \<open>
  The example environment stands in for the libraries on two small molecules: water
  (\<open>O\<close>) and dihydrogen (\<open>[H][H]\<close>), with positions that do not depend on the seed.
  Floating-point numbers are real numbers, the metric is the Euclidean distance, and a
  cell is a text or a number. The printed form of a number is not needed: no categorical
  column of the example table holds one.
\<close>

datatype cell = Text string | Number real

definition euclidean :: "real list \<Rightarrow> real list \<Rightarrow> real" where
  "euclidean u v = sqrt (sum_list (map (\<lambda>(a, b). (a - b)\<^sup>2) (zip u v)))"

definition H_atom :: atom where
  "H_atom = \<lparr>GetSymbol = ''H'', IsInRing = False, GetHybridization = ''S'', GetIsAromatic = False\<rparr>"

definition water :: mol where
  "water = \<lparr>GetAtoms = [\<lparr>GetSymbol = ''O'', IsInRing = False, GetHybridization = ''SP3'',
                         GetIsAromatic = False\<rparr>, H_atom, H_atom],
            GetBonds = [\<lparr>GetBeginAtomIdx = 0, GetEndAtomIdx = 1\<rparr>,
                        \<lparr>GetBeginAtomIdx = 0, GetEndAtomIdx = 2\<rparr>]\<rparr>"

definition dihydrogen :: mol where
  "dihydrogen = \<lparr>GetAtoms = [H_atom, H_atom],
                 GetBonds = [\<lparr>GetBeginAtomIdx = 0, GetEndAtomIdx = 1\<rparr>]\<rparr>"

definition example_conformer :: "mol \<Rightarrow> real Point3D list" where
  "example_conformer m =
     take (length (GetAtoms m)) [(0, 0, 0), (5/8, 5/8, 5/8), (5/8, -5/8, -5/8), (-5/8, 5/8, -5/8), (-5/8, -5/8, 5/8)]"

definition example_py_add :: "cell \<Rightarrow> cell \<Rightarrow> cell option" where
  "example_py_add x y =
     (case (x, y) of
        (Number a, Number b) \<Rightarrow> Some (Number (a + b))
      | (Text s, Text t) \<Rightarrow> Some (Text (s @ t))
      | _ \<Rightarrow> None)"

definition example_env :: "(cell, real, nat) env" where
  "example_env =
     \<lparr>ATOMTYPE_DICT = map_of [(''H'', 0), (''C'', 1), (''N'', 2), (''O'', 3)],
      IS_RING_DICT = map_of [(''False'', 0), (''True'', 1)],
      HYBRIDISATION_DICT = map_of [(''S'', 0), (''SP'', 1), (''SP2'', 2), (''SP3'', 3)],
      AROMATOCITY_DICT = map_of [(''False'', 0), (''True'', 1)],
      get_dict_for_embedding = first_seen_ids,
      MolFromSmiles_AddHs = map_of [(''O'', water), (''[H][H]'', dihydrogen)],
      EmbedMolecule_UFF = (\<lambda>m maxAttempts rng. (Some (example_conformer m), Suc rng)),
      MorganFingerprint = (\<lambda>m. map (\<lambda>a. GetSymbol a = ''C'') (GetAtoms m)),
      pdist_metric = euclidean,
      py_str = (\<lambda>c. case c of Text s \<Rightarrow> s | Number x \<Rightarrow> ''?''),
      py_float = (\<lambda>c. case c of Text s \<Rightarrow> None | Number x \<Rightarrow> Some x),
      py_add = example_py_add,
      list_set = remdups,
      h5_name = (\<lambda>c. case c of Text s \<Rightarrow> Some s | Number x \<Rightarrow> None)\<rparr>"

text \<open>
  What the featurizer returns for the two molecules of the example.
\<close>

definition water_features :: "real features" where
  "water_features =
     \<lparr>atomids = [3, 0, 0], is_ring = [0, 0, 0], hyb = [3, 0, 0], arom = [0, 0, 0],
      edge_2d = ([0, 1, 0, 2], [1, 0, 2, 0]),
      edge_3d = ([0, 0, 1, 1, 2, 2], [1, 2, 0, 2, 0, 1]),
      crds_3d = [[0, 0, 0], [5/8, 5/8, 5/8], [5/8, -5/8, -5/8]],
      tokeep = [0, 0, 0]\<rparr>"

definition dihydrogen_features :: "real features" where
  "dihydrogen_features =
     \<lparr>atomids = [0, 0], is_ring = [0, 0], hyb = [0, 0], arom = [0, 0],
      edge_2d = ([0, 1], [1, 0]),
      edge_3d = ([0, 1], [1, 0]),
      crds_3d = [[0, 0, 0], [5/8, 5/8, 5/8]],
      tokeep = [0, 0]\<rparr>"

text \<open>
  A table of two reactions with the same two reactants.
\<close>

definition example_table :: "cell DataFrame" where
  "example_table = map_of
     [(''rxn_id'', [Text ''rxn_1'', Text ''rxn_2'']),
      (''temperature_deg_c'', [Number 25, Number 40]),
      (''time_h'', [Number 12, Number 12]),
      (''atmosphere'', [Text ''air'', Text ''N2'']),
      (''scale_umol'', [Number 100, Number 100]),
      (''concentration_mmol_l'', [Number 50, Number 50]),
      (''startingmat_1_smiles'', [Text ''O'', Text ''O'']),
      (''startingmat_2_smiles'', [Text ''[H][H]'', Text ''[H][H]'']),
      (''startingmat_2_eq'', [Number 2, Number 3]),
      (''reagent_1_smiles'', [Text ''O=S(=O)(O)O'', Text ''O=S(=O)(O)O'']),
      (''reagent_1_eq'', [Number 1, Number 1]),
      (''catalyst_1_smiles'', [Text ''[Ag+]'', Text ''[Fe+2]'']),
      (''catalyst_1_eq'', [Number (1/10), Number (1/5)]),
      (''additive_1_smiles'', [Text ''none'', Text ''none'']),
      (''additive_1_eq'', [Number 0, Number 0]),
      (''solvent_1_smiles'', [Text ''CS(C)=O'', Text ''CS(C)=O'']),
      (''solvent_1_fraction'', [Number (1/2), Number (1/2)]),
      (''solvent_2_smiles'', [Text ''O'', Text ''O'']),
      (''solvent_2_fraction'', [Number (1/2), Number (1/2)]),
      (''product_mono'', [Number (1/2), Number 0]),
      (''product_di'', [Number (1/5), Number 0]),
      (''product_non'', [Number (3/10), Number 1]),
      (''binary'', [Number 1, Number 0])]"

definition example_columns :: "cell columns" where
  "example_columns =
     \<lparr>rxn_id = [Text ''rxn_1'', Text ''rxn_2''],
      temperature_degC = [Number 25, Number 40],
      time_h = [Number 12, Number 12],
      atmosphere = [''air'', ''N2''],
      scale_mol = [Number 100, Number 100],
      concentration_moll = [Number 50, Number 50],
      startingmat_1_smiles = [''O'', ''O''],
      startingmat_2_smiles = [''[H][H]'', ''[H][H]''],
      startingmat_2_eq = [Number 2, Number 3],
      reagent_1_smiles = [''O=S(=O)(O)O'', ''O=S(=O)(O)O''],
      reagent_1_eq = [Number 1, Number 1],
      catalyst_1_smiles = [''[Ag+]'', ''[Fe+2]''],
      catalyst_1_eq = [Number (1/10), Number (1/5)],
      additive_1_smiles = [''none'', ''none''],
      additive_1_eq = [Number 0, Number 0],
      solvent_1_smiles = [''CS(C)=O'', ''CS(C)=O''],
      solvent_1_fraction = [Number (1/2), Number (1/2)],
      solvent_2_smiles = [''O'', ''O''],
      solvent_2_fraction = [Number (1/2), Number (1/2)],
      product_mono = [Number (1/2), Number 0],
      product_di = [Number (1/5), Number 0],
      product_non = [Number (3/10), Number 1],
      binary = [Number 1, Number 0]\<rparr>"

definition example_world :: "(cell, real) world" where
  "example_world = fst (main example_env example_table 0)"

text \<open>
  A second environment, in which the embedding depends on the random source as RDKit's
  does when no seed reaches it: the conformer is moved along the first axis by the state
  of the source.
\<close>

definition drifting_conformer :: "mol \<Rightarrow> nat \<Rightarrow> real Point3D list" where
  "drifting_conformer m rng =
     map (\<lambda>(x, y, z). (x + real rng, y, z)) (example_conformer m)"

definition drifting_env :: "(cell, real, nat) env" where
  "drifting_env = example_env
     \<lparr>EmbedMolecule_UFF := (\<lambda>m maxAttempts rng. (Some (drifting_conformer m rng), Suc rng))\<rparr>"

definition second_dihydrogen_features :: "real features" where
  "second_dihydrogen_features =
     dihydrogen_features\<lparr>crds_3d := [[1, 0, 0], [13/8, 5/8, 5/8]]\<rparr>"

section \<open>Results and errors\<close>

lemma ebind_Inr: "ebind m f = Inr y \<longleftrightarrow> (\<exists>x. m = Inr x \<and> f x = Inr y)"
  by (cases m) (simp_all add: ebind_def)

lemma ebind_Inl: "ebind m f = Inl e \<longleftrightarrow> m = Inl e \<or> (\<exists>x. m = Inr x \<and> f x = Inl e)"
  by (cases m) (simp_all add: ebind_def)

lemma lookup_Inr: "lookup og d k = Inr v \<longleftrightarrow> d k = Some v"
  by (simp add: lookup_def split: option.splits)

lemma lookup_Inl: "lookup og d k = Inl e \<longleftrightarrow> d k = None \<and> e = KeyError og k"
  by (auto simp: lookup_def split: option.splits)

lemma index_Inr: "index xs i = Inr x \<longleftrightarrow> i < length xs \<and> x = xs ! i"
  by (auto simp: index_def)

section \<open>Properties of the featurizer\<close>

lemma atom_step_lengths:
  assumes "atom_step E conf idx i acc = Inr acc'"
  shows "length (acc_atomids acc') = Suc (length (acc_atomids acc))"
    and "length (acc_is_ring acc') = Suc (length (acc_is_ring acc))"
    and "length (acc_hyb acc') = Suc (length (acc_hyb acc))"
    and "length (acc_arom acc') = Suc (length (acc_arom acc))"
    and "length (acc_crds_3d acc') = Suc (length (acc_crds_3d acc))"
    and "length (acc_tokeep acc') = Suc (length (acc_tokeep acc))"
    and "set (acc_crds_3d acc') \<subseteq> set (acc_crds_3d acc) \<union> {r. length r = 3}"
  using assms
  by (auto simp: atom_step_def ebind_Inr list_of_point_def split: prod.splits)

lemma atom_loop_lengths:
  assumes "atom_loop E conf ias acc = Inr acc'"
  shows "length (acc_atomids acc') = length (acc_atomids acc) + length ias
    \<and> length (acc_is_ring acc') = length (acc_is_ring acc) + length ias
    \<and> length (acc_hyb acc') = length (acc_hyb acc) + length ias
    \<and> length (acc_arom acc') = length (acc_arom acc) + length ias
    \<and> length (acc_crds_3d acc') = length (acc_crds_3d acc) + length ias
    \<and> length (acc_tokeep acc') = length (acc_tokeep acc) + length ias
    \<and> set (acc_crds_3d acc') \<subseteq> set (acc_crds_3d acc) \<union> {r. length r = 3}"
  using assms
proof (induction ias arbitrary: acc)
  case Nil
  then show ?case by simp
next
  case (Cons p ias)
  obtain idx i where p: "p = (idx, i)" by (cases p)
  from Cons.prems p obtain acc1 where s: "atom_step E conf idx i acc = Inr acc1"
    and l: "atom_loop E conf ias acc1 = Inr acc'"
    by (auto split: sum.splits)
  from Cons.IH[OF l] atom_step_lengths[OF s] show ?case by auto
qed

lemma bond_loop_edges:
  "length d1 = length d2 \<Longrightarrow>
   edges (bond_loop bs (d1, d2)) =
     set (zip d1 d2) \<union> (\<Union>b\<in>set bs. {(GetBeginAtomIdx b, GetEndAtomIdx b), (GetEndAtomIdx b, GetBeginAtomIdx b)})"
proof (induction bs arbitrary: d1 d2)
  case Nil
  then show ?case by (simp add: edges_def)
next
  case (Cons b bs)
  have "length (d1 @ [GetBeginAtomIdx b, GetEndAtomIdx b]) = length (d2 @ [GetEndAtomIdx b, GetBeginAtomIdx b])"
    using Cons.prems by simp
  from Cons.IH[OF this] Cons.prems show ?case
    by (auto simp: Let_def)
qed

lemma set_np_where:
  "set (np_where P M) = {(i, j). i < length M \<and> j < length (M ! i) \<and> P (M ! i ! j)}"
  by (auto simp: np_where_def in_set_enumerate_eq split: prod.splits) (force simp: in_set_enumerate_eq)+

lemma edges_vstack: "edges (vstack ps) = set ps"
  by (simp add: edges_def vstack_def zip_map_fst_snd)

lemma length_fill_diagonal: "length (fill_diagonal M v) = length M"
  by (simp add: fill_diagonal_def)

lemma nth_fill_diagonal:
  "i < length M \<Longrightarrow> fill_diagonal M v ! i = (M ! i)[i := v]"
  by (simp add: fill_diagonal_def nth_enumerate_eq)

lemma get_3dG_from_smi_Inr:
  assumes "get_3dG_from_smi E smi seed rng = (Inr out, rng')"
  obtains m conf acc M where
    "MolFromSmiles_AddHs E smi = Some m"
    "EmbedMolecule_UFF E m seed rng = (Some conf, rng')"
    "atom_loop E conf (enumerate 0 (GetAtoms m)) empty_acc = Inr acc"
    "squareform_pdist (pdist_metric E) (acc_crds_3d acc) = Inr M"
    "atomids out = acc_atomids acc" "is_ring out = acc_is_ring acc" "hyb out = acc_hyb acc"
    "arom out = acc_arom acc" "crds_3d out = acc_crds_3d acc" "tokeep out = acc_tokeep acc"
    "edge_2d out = bond_loop (GetBonds m) ([], [])"
    "edge_3d out = vstack (np_where le_4 (fill_diagonal M PInf))"
  using assms
  by (auto simp: get_3dG_from_smi_def ebind_Inr split: option.splits prod.splits)

lemma edge_3d_char:
  assumes "squareform_pdist d X = Inr M"
  shows "set (np_where le_4 (fill_diagonal M PInf)) =
     {(i, j). i < length X \<and> j < length X \<and> i \<noteq> j \<and> conformer_distance d X i j \<le> 4}"
proof -
  from assms have M: "M = map (\<lambda>i. map (\<lambda>j.
             if i = j then Fin 0
             else if i < j then Fin (d (X ! i) (X ! j))
             else Fin (d (X ! j) (X ! i))) [0..<length X]) [0..<length X]"
    by (auto simp: squareform_pdist_def split: if_splits)
  have len: "length M = length X" by (simp add: M)
  have row: "\<And>i. i < length X \<Longrightarrow> length (M ! i) = length X" by (simp add: M)
  have ent: "\<And>i j. i < length X \<Longrightarrow> j < length X \<Longrightarrow>
     le_4 (fill_diagonal M PInf ! i ! j) = (i \<noteq> j \<and> conformer_distance d X i j \<le> 4)"
    by (auto simp: nth_fill_diagonal len M le_4_def conformer_distance_def nth_list_update min_def max_def)
  have frow: "\<And>i. i < length X \<Longrightarrow> length (fill_diagonal M PInf ! i) = length X"
    by (simp add: nth_fill_diagonal len row)
  show ?thesis
    unfolding set_np_where length_fill_diagonal len
    using frow ent by auto
qed

section \<open>Properties of the containers and of the loops\<close>

lemma create_group_Inr:
  "create_group f n = Inr f' \<longleftrightarrow> f n = None \<and> f' = f(n \<mapsto> [])"
  by (auto simp: create_group_def split: option.splits)

lemma create_dataset_Inr:
  "create_dataset f k n d = Inr f' \<longleftrightarrow>
     (\<exists>g. f k = Some g \<and> n \<notin> set (map fst g) \<and> f' = f(k \<mapsto> g @ [(n, d)]))"
  by (auto simp: create_dataset_def split: option.splits)

lemma create_datasets_None:
  "create_datasets f k ds = (f', None) \<Longrightarrow> f k = Some g \<Longrightarrow> f' = f(k \<mapsto> g @ ds)"
proof (induction ds arbitrary: f g)
  case Nil
  then show ?case by auto
next
  case (Cons p ds)
  obtain n d where p: "p = (n, d)" by (cases p)
  from Cons.prems p obtain f1 where c: "create_dataset f k n d = Inr f1"
    and r: "create_datasets f1 k ds = (f', None)"
    by (auto split: sum.splits)
  from c Cons.prems(2) have f1: "f1 = f(k \<mapsto> g @ [(n, d)])"
    by (auto simp: create_dataset_Inr)
  then have "f1 k = Some (g @ [(n, d)])" by simp
  from Cons.IH[OF r this] have "f' = f1(k \<mapsto> (g @ [(n, d)]) @ ds)" .
  then show ?case unfolding f1 p by simp
qed

lemma create_datasets_ok:
  "f k = Some g \<Longrightarrow> distinct (map fst (g @ ds)) \<Longrightarrow>
   create_datasets f k ds = (f(k \<mapsto> g @ ds), None)"
proof (induction ds arbitrary: f g)
  case Nil
  then show ?case by (simp add: fun_upd_idem)
next
  case (Cons p ds)
  obtain n d where p: "p = (n, d)" by (cases p)
  from Cons.prems p have c: "create_dataset f k n d = Inr (f(k \<mapsto> g @ [(n, d)]))"
    by (auto simp: create_dataset_Inr)
  have r: "create_datasets (f(k \<mapsto> g @ [(n, d)])) k ds
      = ((f(k \<mapsto> g @ [(n, d)]))(k \<mapsto> (g @ [(n, d)]) @ ds), None)"
    using Cons.prems p by (intro Cons.IH) auto
  have e: "(f(k \<mapsto> g @ [(n, d)]))(k \<mapsto> (g @ [(n, d)]) @ ds) = f(k \<mapsto> g @ (n, d) # ds)"
    by simp
  have "create_datasets f k ((n, d) # ds) = create_datasets (f(k \<mapsto> g @ [(n, d)])) k ds"
    by (simp only: create_datasets.simps c sum.case)
  then show ?case unfolding p r e .
qed

lemma read_columns_Inl:
  assumes "read_columns E df = Inl e"
  shows "\<exists>c \<in> set required_columns. df c = None \<and> e = KeyError Column c"
  using assms unfolding read_columns_def ebind_Inl lookup_Inl lookup_Inr required_columns_def
  by (elim disjE exE conjE) simp_all

lemma read_columns_Inr:
  assumes "read_columns E df = Inr T"
  shows "\<forall>c \<in> set required_columns. df c \<noteq> None"
    and "df ''rxn_id'' = Some (rxn_id T)"
    and "df ''product_mono'' = Some (product_mono T)"
    and "df ''product_di'' = Some (product_di T)"
    and "df ''binary'' = Some (binary T)"
    and "\<exists>c. df ''startingmat_1_smiles'' = Some c \<and> startingmat_1_smiles T = map (py_str E) c"
    and "\<exists>c. df ''startingmat_2_smiles'' = Some c \<and> startingmat_2_smiles T = map (py_str E) c"
  using assms unfolding read_columns_def ebind_Inr lookup_Inr required_columns_def
  by auto

lemma product_all_loop_Inr:
  "product_all_loop E monos dis ps = Inr ys \<Longrightarrow>
     length ys = length ps \<and>
     (\<forall>n < length ps. \<exists>s. fst (ps ! n) < length monos \<and> fst (ps ! n) < length dis
        \<and> py_add E (monos ! fst (ps ! n)) (dis ! fst (ps ! n)) = Some s
        \<and> py_float E s = Some (ys ! n))"
proof (induction ps arbitrary: ys)
  case Nil
  then show ?case by simp
next
  case (Cons p ps)
  obtain i x where p: "p = (i, x)" by (cases p)
  from Cons.prems p obtain s y ys' where
    i: "i < length monos" "i < length dis"
    and s: "py_add E (monos ! i) (dis ! i) = Some s" and y: "py_float E s = Some y"
    and r: "product_all_loop E monos dis ps = Inr ys'" and ys: "ys = y # ys'"
    by (auto simp: ebind_Inr index_Inr plus_cells_def to_float_def split: option.splits)
  from Cons.IH[OF r] have ih: "length ys' = length ps"
    "\<And>n. n < length ps \<Longrightarrow> \<exists>s. fst (ps ! n) < length monos \<and> fst (ps ! n) < length dis
        \<and> py_add E (monos ! fst (ps ! n)) (dis ! fst (ps ! n)) = Some s
        \<and> py_float E s = Some (ys' ! n)"
    by auto
  show ?case
  proof (intro conjI allI impI)
    show "length ys = length (p # ps)" by (simp add: ys ih(1))
  next
    fix n assume n: "n < length (p # ps)"
    show "\<exists>s. fst ((p # ps) ! n) < length monos \<and> fst ((p # ps) ! n) < length dis
        \<and> py_add E (monos ! fst ((p # ps) ! n)) (dis ! fst ((p # ps) ! n)) = Some s
        \<and> py_float E s = Some (ys ! n)"
    proof (cases n)
      case 0
      with i s y p ys show ?thesis by simp
    next
      case (Suc m)
      with n ih(2)[of m] ys show ?thesis by simp
    qed
  qed
qed

lemma map_fst_condition_datasets:
  "map fst (condition_datasets r @ target_datasets y b) = reaction_field_names"
  by (simp add: condition_datasets_def target_datasets_def reaction_field_names_def)

lemma count_condition_datasets:
  "count_class Fingerprint (condition_datasets r @ target_datasets y b) = 2"
  "count_class NumericCondition (condition_datasets r @ target_datasets y b) = 10"
  "count_class CategoricalId (condition_datasets r @ target_datasets y b) = 6"
  "count_class Target (condition_datasets r @ target_datasets y b) = 2"
  by (simp_all add: count_class_def condition_datasets_def target_datasets_def)

lemma reaction_step_None:
  assumes "reaction_step E T V pa idx k f = (f', None)"
  shows "\<exists>key r. h5_name E k = Some key \<and> f key = None \<and> reaction_row E T V idx = Inr r
     \<and> idx < length pa \<and> idx < length (binary T)
     \<and> f' = f(key \<mapsto> condition_datasets r @ target_datasets (pa ! idx) (binary T ! idx))"
proof -
  from assms obtain r key f1 f2 y f3 b where
    r: "reaction_row E T V idx = Inr r" and k: "h5_name E k = Some key"
    and g: "create_group f key = Inr f1"
    and c1: "create_datasets f1 key (condition_datasets r) = (f2, None)"
    and y: "index pa idx = Inr y"
    and c2: "create_datasets f2 key [(''trg_yld'', FloatArray [y])] = (f3, None)"
    and b: "index (binary T) idx = Inr b"
    and c3: "create_datasets f3 key [(''trg_bin'', CellArray [b])] = (f', None)"
    unfolding reaction_step_def
    by (auto split: sum.splits option.splits prod.splits)
  from g have f1: "f key = None" "f1 = f(key \<mapsto> [])" by (auto simp: create_group_Inr)
  have f2: "f2 = f1(key \<mapsto> [] @ condition_datasets r)"
    by (rule create_datasets_None[OF c1]) (simp add: f1)
  have f3: "f3 = f2(key \<mapsto> condition_datasets r @ [(''trg_yld'', FloatArray [y])])"
    by (rule create_datasets_None[OF c2]) (simp add: f2)
  have f4: "f' = f3(key \<mapsto> (condition_datasets r @ [(''trg_yld'', FloatArray [y])]) @ [(''trg_bin'', CellArray [b])])"
    by (rule create_datasets_None[OF c3]) (simp add: f3)
  from y b have "idx < length pa" "y = pa ! idx" "idx < length (binary T)" "b = binary T ! idx"
    by (auto simp: index_Inr)
  with r k f1 f2 f3 f4 show ?thesis by (simp add: target_datasets_def)
qed

lemma reaction_step_ok:
  assumes "reaction_row E T V idx = Inr r" "h5_name E k = Some key" "f key = None"
    "idx < length pa" "idx < length (binary T)"
  shows "reaction_step E T V pa idx k f =
     (f(key \<mapsto> condition_datasets r @ target_datasets (pa ! idx) (binary T ! idx)), None)"
proof -
  have g: "create_group f key = Inr (f(key \<mapsto> []))"
    using assms(3) by (simp add: create_group_Inr)
  have d: "distinct (map fst (condition_datasets r @ target_datasets (pa ! idx) (binary T ! idx)))"
    unfolding map_fst_condition_datasets by (simp add: reaction_field_names_def)
  have c1: "create_datasets (f(key \<mapsto> [])) key (condition_datasets r)
      = ((f(key \<mapsto> []))(key \<mapsto> [] @ condition_datasets r), None)"
    using d by (intro create_datasets_ok) simp_all
  have c2: "create_datasets (f(key \<mapsto> condition_datasets r)) key [(''trg_yld'', FloatArray [pa ! idx])]
      = ((f(key \<mapsto> condition_datasets r))(key \<mapsto> condition_datasets r @ [(''trg_yld'', FloatArray [pa ! idx])]), None)"
    using d by (intro create_datasets_ok) (simp_all add: target_datasets_def)
  have c3: "create_datasets (f(key \<mapsto> condition_datasets r @ [(''trg_yld'', FloatArray [pa ! idx])])) key
        [(''trg_bin'', CellArray [binary T ! idx])]
      = ((f(key \<mapsto> condition_datasets r @ [(''trg_yld'', FloatArray [pa ! idx])]))
          (key \<mapsto> (condition_datasets r @ [(''trg_yld'', FloatArray [pa ! idx])])
             @ [(''trg_bin'', CellArray [binary T ! idx])]), None)"
    using d by (intro create_datasets_ok) (simp_all add: target_datasets_def)
  show ?thesis
    unfolding reaction_step_def
    using assms g c1 c2 c3 by (simp add: index_def target_datasets_def)
qed

lemma reaction_loop_keeps:
  "reaction_loop E T V pa ps f = (f', None) \<Longrightarrow> f key = Some g \<Longrightarrow> f' key = Some g"
proof (induction ps arbitrary: f)
  case Nil
  then show ?case by simp
next
  case (Cons p ps)
  obtain i k where p: "p = (i, k)" by (cases p)
  from Cons.prems(1) p obtain f1 where s: "reaction_step E T V pa i k f = (f1, None)"
    and l: "reaction_loop E T V pa ps f1 = (f', None)"
    by (auto split: prod.splits option.splits)
  from reaction_step_None[OF s] Cons.prems(2) have "f1 key = Some g" by auto
  from Cons.IH[OF l this] show ?case .
qed

lemma reaction_loop_None:
  assumes "reaction_loop E T V pa ps f = (f', None)" and "(idx, k) \<in> set ps"
  shows "\<exists>key r. h5_name E k = Some key \<and> reaction_row E T V idx = Inr r
     \<and> idx < length pa \<and> idx < length (binary T)
     \<and> f' key = Some (condition_datasets r @ target_datasets (pa ! idx) (binary T ! idx))"
  using assms
proof (induction ps arbitrary: f)
  case Nil
  then show ?case by simp
next
  case (Cons p ps)
  obtain i j where p: "p = (i, j)" by (cases p)
  from Cons.prems(1) p obtain f1 where s: "reaction_step E T V pa i j f = (f1, None)"
    and l: "reaction_loop E T V pa ps f1 = (f', None)"
    by (auto split: prod.splits option.splits)
  show ?case
  proof (cases "(idx, k) = (i, j)")
    case True
    from reaction_step_None[OF s] obtain key r where
      h: "h5_name E j = Some key" "reaction_row E T V i = Inr r" "i < length pa"
      "i < length (binary T)"
      "f1 key = Some (condition_datasets r @ target_datasets (pa ! i) (binary T ! i))"
      by auto
    from reaction_loop_keeps[OF l h(5)] h True show ?thesis by auto
  next
    case False
    with Cons.prems(2) p have "(idx, k) \<in> set ps" by auto
    from Cons.IH[OF l this] show ?thesis .
  qed
qed

lemma map_fst_substrate_datasets:
  "map fst (substrate_datasets ''a'' a @ substrate_datasets ''b'' b @
           substrate_datasets ''c'' c @ substrate_datasets ''d'' d @
           substrate_datasets ''e'' e) = section_names ''1'' feature_names"
  by (simp add: substrate_datasets_def section_names_def feature_names_def)

lemma map_fst_carbacid_datasets:
  "map fst (carbacid_datasets ''a'' a @ carbacid_datasets ''b'' b @
           carbacid_datasets ''c'' c @ carbacid_datasets ''d'' d @
           carbacid_datasets ''e'' e) = section_names ''2'' acid_feature_names"
  by (simp add: carbacid_datasets_def section_names_def acid_feature_names_def)

lemma substrate_names_40:
  "length (section_names ''1'' feature_names) = 40"
  "distinct (section_names ''1'' feature_names)"
  by (simp_all add: section_names_def feature_names_def)

lemma carbacid_names_35:
  "length (section_names ''2'' acid_feature_names) = 35"
  "distinct (section_names ''2'' acid_feature_names)"
  by (simp_all add: section_names_def acid_feature_names_def)

lemma substrate_step_None:
  fixes E :: "('c, 'f::{zero,ord,numeral}, 'r) env"
  assumes "substrate_step E smi (f, tr, rng) = ((f', tr', rng'), None)"
  shows "f smi = None \<and> tr' = tr @ five_calls 1 smi
     \<and> (\<exists>a b c d e :: 'f features. f' = f(smi \<mapsto>
           substrate_datasets ''a'' a @ substrate_datasets ''b'' b @
           substrate_datasets ''c'' c @ substrate_datasets ''d'' d @
           substrate_datasets ''e'' e))"
proof -
  from assms obtain a b c d e :: "'f features" and f1 where
    t: "tr' = tr @ [(1, smi, 0xF00A)] @ [(1, smi, 0xF00B)] @ [(1, smi, 0xF00C)]
          @ [(1, smi, 0xF00D)] @ [(1, smi, 0xF00E)]"
    and g: "create_group f smi = Inr f1"
    and c: "create_datasets f1 smi
             (substrate_datasets ''a'' a @ substrate_datasets ''b'' b @
              substrate_datasets ''c'' c @ substrate_datasets ''d'' d @
              substrate_datasets ''e'' e) = (f', None)"
    unfolding substrate_step_def call_featurizer_def
    by (auto split: sum.splits prod.splits)
  from g have f1: "f smi = None" "f1 = f(smi \<mapsto> [])" by (auto simp: create_group_Inr)
  have "f' = f1(smi \<mapsto> [] @ (substrate_datasets ''a'' a @ substrate_datasets ''b'' b @
              substrate_datasets ''c'' c @ substrate_datasets ''d'' d @
              substrate_datasets ''e'' e))"
    by (rule create_datasets_None[OF c]) (simp add: f1)
  then have "f' = f(smi \<mapsto> substrate_datasets ''a'' a @ substrate_datasets ''b'' b @
              substrate_datasets ''c'' c @ substrate_datasets ''d'' d @
              substrate_datasets ''e'' e)"
    by (simp add: f1)
  then have "\<exists>a b c d e :: 'f features. f' = f(smi \<mapsto>
           substrate_datasets ''a'' a @ substrate_datasets ''b'' b @
           substrate_datasets ''c'' c @ substrate_datasets ''d'' d @
           substrate_datasets ''e'' e)"
    by blast
  with f1 t show ?thesis by (simp add: five_calls_def)
qed

lemma substrate_step_ok:
  fixes E :: "('c, 'f::{zero,ord,numeral}, 'r) env" and f :: "('c, 'f) h5file"
  assumes "get_3dG_from_smi E smi 0xF00A r0 = (Inr a, r1)"
    "get_3dG_from_smi E smi 0xF00B r1 = (Inr b, r2)"
    "get_3dG_from_smi E smi 0xF00C r2 = (Inr c, r3)"
    "get_3dG_from_smi E smi 0xF00D r3 = (Inr d, r4)"
    "get_3dG_from_smi E smi 0xF00E r4 = (Inr e, r5)" "f smi = None"
  shows "substrate_step E smi (f, tr, r0) =
     ((f(smi \<mapsto> substrate_datasets ''a'' a @ substrate_datasets ''b'' b @
           substrate_datasets ''c'' c @ substrate_datasets ''d'' d @
           substrate_datasets ''e'' e), tr @ five_calls 1 smi, r5), None)"
proof -
  have g: "create_group f smi = Inr (f(smi \<mapsto> []))"
    using assms(6) by (simp add: create_group_Inr)
  have "distinct (map fst ([] @ (substrate_datasets ''a'' a @ substrate_datasets ''b'' b @
           substrate_datasets ''c'' c @ substrate_datasets ''d'' d @
           substrate_datasets ''e'' e) :: (string \<times> ('c, 'f) dataset) list))"
    unfolding append_Nil map_fst_substrate_datasets by (rule substrate_names_40(2))
  then have c: "create_datasets (f(smi \<mapsto> [])) smi
           (substrate_datasets ''a'' a @ substrate_datasets ''b'' b @
           substrate_datasets ''c'' c @ substrate_datasets ''d'' d @
           substrate_datasets ''e'' e)
       = ((f(smi \<mapsto> []))(smi \<mapsto> [] @ (substrate_datasets ''a'' a @ substrate_datasets ''b'' b @
           substrate_datasets ''c'' c @ substrate_datasets ''d'' d @
           substrate_datasets ''e'' e)), None)"
    by (intro create_datasets_ok) simp_all
  show ?thesis
    unfolding substrate_step_def call_featurizer_def
    using assms(1-5) g c by (simp add: five_calls_def)
qed

lemma carbacid_step_None:
  fixes E :: "('c, 'f::{zero,ord,numeral}, 'r) env"
  assumes "carbacid_step E smi (f, tr, rng) = ((f', tr', rng'), None)"
  shows "f smi = None \<and> tr' = tr @ five_calls 2 smi
     \<and> (\<exists>a b c d e :: 'f features. f' = f(smi \<mapsto>
           carbacid_datasets ''a'' a @ carbacid_datasets ''b'' b @
           carbacid_datasets ''c'' c @ carbacid_datasets ''d'' d @
           carbacid_datasets ''e'' e))"
proof -
  from assms obtain a b c d e :: "'f features" and f1 where
    t: "tr' = tr @ [(2, smi, 0xF00A)] @ [(2, smi, 0xF00B)] @ [(2, smi, 0xF00C)]
          @ [(2, smi, 0xF00D)] @ [(2, smi, 0xF00E)]"
    and g: "create_group f smi = Inr f1"
    and c: "create_datasets f1 smi
             (carbacid_datasets ''a'' a @ carbacid_datasets ''b'' b @
              carbacid_datasets ''c'' c @ carbacid_datasets ''d'' d @
              carbacid_datasets ''e'' e) = (f', None)"
    unfolding carbacid_step_def call_featurizer_def
    by (auto split: sum.splits prod.splits)
  from g have f1: "f smi = None" "f1 = f(smi \<mapsto> [])" by (auto simp: create_group_Inr)
  have "f' = f1(smi \<mapsto> [] @ (carbacid_datasets ''a'' a @ carbacid_datasets ''b'' b @
              carbacid_datasets ''c'' c @ carbacid_datasets ''d'' d @
              carbacid_datasets ''e'' e))"
    by (rule create_datasets_None[OF c]) (simp add: f1)
  then have "f' = f(smi \<mapsto> carbacid_datasets ''a'' a @ carbacid_datasets ''b'' b @
              carbacid_datasets ''c'' c @ carbacid_datasets ''d'' d @
              carbacid_datasets ''e'' e)"
    by (simp add: f1)
  then have "\<exists>a b c d e :: 'f features. f' = f(smi \<mapsto>
           carbacid_datasets ''a'' a @ carbacid_datasets ''b'' b @
           carbacid_datasets ''c'' c @ carbacid_datasets ''d'' d @
           carbacid_datasets ''e'' e)"
    by blast
  with f1 t show ?thesis by (simp add: five_calls_def)
qed

lemma carbacid_step_ok:
  fixes E :: "('c, 'f::{zero,ord,numeral}, 'r) env" and f :: "('c, 'f) h5file"
  assumes "get_3dG_from_smi E smi 0xF00A r0 = (Inr a, r1)"
    "get_3dG_from_smi E smi 0xF00B r1 = (Inr b, r2)"
    "get_3dG_from_smi E smi 0xF00C r2 = (Inr c, r3)"
    "get_3dG_from_smi E smi 0xF00D r3 = (Inr d, r4)"
    "get_3dG_from_smi E smi 0xF00E r4 = (Inr e, r5)" "f smi = None"
  shows "carbacid_step E smi (f, tr, r0) =
     ((f(smi \<mapsto> carbacid_datasets ''a'' a @ carbacid_datasets ''b'' b @
           carbacid_datasets ''c'' c @ carbacid_datasets ''d'' d @
           carbacid_datasets ''e'' e), tr @ five_calls 2 smi, r5), None)"
proof -
  have g: "create_group f smi = Inr (f(smi \<mapsto> []))"
    using assms(6) by (simp add: create_group_Inr)
  have "distinct (map fst ([] @ (carbacid_datasets ''a'' a @ carbacid_datasets ''b'' b @
           carbacid_datasets ''c'' c @ carbacid_datasets ''d'' d @
           carbacid_datasets ''e'' e) :: (string \<times> ('c, 'f) dataset) list))"
    unfolding append_Nil map_fst_carbacid_datasets by (rule carbacid_names_35(2))
  then have c: "create_datasets (f(smi \<mapsto> [])) smi
           (carbacid_datasets ''a'' a @ carbacid_datasets ''b'' b @
           carbacid_datasets ''c'' c @ carbacid_datasets ''d'' d @
           carbacid_datasets ''e'' e)
       = ((f(smi \<mapsto> []))(smi \<mapsto> [] @ (carbacid_datasets ''a'' a @ carbacid_datasets ''b'' b @
           carbacid_datasets ''c'' c @ carbacid_datasets ''d'' d @
           carbacid_datasets ''e'' e)), None)"
    by (intro create_datasets_ok) simp_all
  show ?thesis
    unfolding carbacid_step_def call_featurizer_def
    using assms(1-5) g c by (simp add: five_calls_def)
qed

lemma substrate_loop_None:
  fixes E :: "('c, 'f::{zero,ord,numeral}, 'r) env"
  shows "substrate_loop E smis (f, tr, rng) = ((f', tr', rng'), None) \<Longrightarrow>
     distinct smis \<and> (\<forall>x \<in> set smis. f x = None)
     \<and> tr' = tr @ concat (map (five_calls 1) smis)
     \<and> (\<forall>x \<in> set smis. \<exists>g. f' x = Some g \<and> map fst g = section_names ''1'' feature_names)
     \<and> (\<forall>x. x \<notin> set smis \<longrightarrow> f' x = f x)"
proof (induction smis arbitrary: f tr rng)
  case Nil
  then show ?case by simp
next
  case (Cons smi smis)
  from Cons.prems obtain f1 tr1 rng1 where
    s: "substrate_step E smi (f, tr, rng) = ((f1, tr1, rng1), None)"
    and l: "substrate_loop E smis (f1, tr1, rng1) = ((f', tr', rng'), None)"
    by (auto split: prod.splits option.splits)
  from substrate_step_None[OF s] obtain g where
    n: "f smi = None" and t: "tr1 = tr @ five_calls 1 smi"
    and f1: "f1 = f(smi \<mapsto> g)" and g: "map fst g = section_names ''1'' feature_names"
    using map_fst_substrate_datasets by blast
  from Cons.IH[OF l] have ih: "distinct smis" "\<forall>x \<in> set smis. f1 x = None"
    "tr' = tr1 @ concat (map (five_calls 1) smis)"
    "\<forall>x \<in> set smis. \<exists>g. f' x = Some g \<and> map fst g = section_names ''1'' feature_names"
    "\<forall>x. x \<notin> set smis \<longrightarrow> f' x = f1 x"
    by auto
  from ih(2) f1 have notin: "smi \<notin> set smis" by auto
  from ih(2) f1 notin have fn: "\<forall>x \<in> set smis. f x = None" by (auto split: if_splits)
  from ih(5) notin f1 have "f' smi = Some g" by simp
  with ih notin n fn t g f1 show ?case by auto
qed

lemma carbacid_loop_None:
  fixes E :: "('c, 'f::{zero,ord,numeral}, 'r) env"
  shows "carbacid_loop E smis (f, tr, rng) = ((f', tr', rng'), None) \<Longrightarrow>
     distinct smis \<and> (\<forall>x \<in> set smis. f x = None)
     \<and> tr' = tr @ concat (map (five_calls 2) smis)
     \<and> (\<forall>x \<in> set smis. \<exists>g. f' x = Some g
           \<and> map fst g = section_names ''2'' acid_feature_names)
     \<and> (\<forall>x. x \<notin> set smis \<longrightarrow> f' x = f x)"
proof (induction smis arbitrary: f tr rng)
  case Nil
  then show ?case by simp
next
  case (Cons smi smis)
  from Cons.prems obtain f1 tr1 rng1 where
    s: "carbacid_step E smi (f, tr, rng) = ((f1, tr1, rng1), None)"
    and l: "carbacid_loop E smis (f1, tr1, rng1) = ((f', tr', rng'), None)"
    by (auto split: prod.splits option.splits)
  from carbacid_step_None[OF s] obtain g where
    n: "f smi = None" and t: "tr1 = tr @ five_calls 2 smi"
    and f1: "f1 = f(smi \<mapsto> g)" and g: "map fst g = section_names ''2'' acid_feature_names"
    using map_fst_carbacid_datasets by blast
  from Cons.IH[OF l] have ih: "distinct smis" "\<forall>x \<in> set smis. f1 x = None"
    "tr' = tr1 @ concat (map (five_calls 2) smis)"
    "\<forall>x \<in> set smis. \<exists>g. f' x = Some g \<and> map fst g = section_names ''2'' acid_feature_names"
    "\<forall>x. x \<notin> set smis \<longrightarrow> f' x = f1 x"
    by auto
  from ih(2) f1 have notin: "smi \<notin> set smis" by auto
  from ih(2) f1 notin have fn: "\<forall>x \<in> set smis. f x = None" by (auto split: if_splits)
  from ih(5) notin f1 have "f' smi = Some g" by simp
  with ih notin n fn t g f1 show ?case by auto
qed

lemma seeds_called_append:
  "seeds_called role smi (xs @ ys) = seeds_called role smi xs @ seeds_called role smi ys"
  by (simp add: seeds_called_def)

lemma seeds_called_five:
  "seeds_called role smi (five_calls r s) =
     (if r = role \<and> s = smi then [0xF00A, 0xF00B, 0xF00C, 0xF00D, 0xF00E] else [])"
  by (simp add: seeds_called_def five_calls_def)

lemma seeds_called_concat:
  "distinct smis \<Longrightarrow>
   seeds_called role smi (concat (map (five_calls r) smis)) =
     (if r = role \<and> smi \<in> set smis then [0xF00A, 0xF00B, 0xF00C, 0xF00D, 0xF00E] else [])"
  by (induction smis) (auto simp: seeds_called_append seeds_called_five, simp add: seeds_called_def)

section \<open>Properties of the run\<close>

lemma main_None:
  assumes "main E df rng = (w, None)"
  shows "\<exists>T pa f1 tr1 rng1 f2 tr2 rng2 f3.
    read_columns E df = Inr T
    \<and> product_all_loop E (product_mono T) (product_di T) (enumerate 0 (product_mono T)) = Inr pa
    \<and> substrate_loop E (list_set E (startingmat_1_smiles T)) (Map.empty, [], rng) = ((f1, tr1, rng1), None)
    \<and> carbacid_loop E (list_set E (startingmat_2_smiles T)) (Map.empty, tr1, rng1) = ((f2, tr2, rng2), None)
    \<and> reaction_loop E T (build_vocabularies E T) pa (enumerate 0 (rxn_id T)) Map.empty = (f3, None)
    \<and> substrate_h5 w = Some f1 \<and> carbacids_h5 w = Some f2 \<and> conditions_h5 w = Some f3
    \<and> calls w = tr2"
  using assms unfolding main_def Let_def
  by (auto split: sum.splits prod.splits option.splits)

lemma enumerate_mem: "idx < length xs \<Longrightarrow> (idx, xs ! idx) \<in> set (enumerate 0 xs)"
  by (simp add: in_set_enumerate_eq)

lemma reaction_group_written:
  assumes m: "main E df rng = (w, None)" and ids: "df ''rxn_id'' = Some ids" and i: "idx < length ids"
  shows "\<exists>T pa f key r. read_columns E df = Inr T
     \<and> product_all_loop E (product_mono T) (product_di T) (enumerate 0 (product_mono T)) = Inr pa
     \<and> conditions_h5 w = Some f \<and> h5_name E (ids ! idx) = Some key
     \<and> reaction_row E T (build_vocabularies E T) idx = Inr r
     \<and> idx < length pa \<and> idx < length (binary T)
     \<and> f key = Some (condition_datasets r @ target_datasets (pa ! idx) (binary T ! idx))"
proof -
  from main_None[OF m] obtain T pa f3 where
    T: "read_columns E df = Inr T"
    and pa: "product_all_loop E (product_mono T) (product_di T) (enumerate 0 (product_mono T)) = Inr pa"
    and l: "reaction_loop E T (build_vocabularies E T) pa (enumerate 0 (rxn_id T)) Map.empty = (f3, None)"
    and w: "conditions_h5 w = Some f3"
    by blast
  from read_columns_Inr(2)[OF T] ids have e: "rxn_id T = ids" by simp
  from i e have "(idx, ids ! idx) \<in> set (enumerate 0 (rxn_id T))" by (simp add: enumerate_mem)
  from reaction_loop_None[OF l this] T pa w show ?thesis by blast
qed

lemma reaction_section_layout:
  fixes E :: "('c, 'f::{zero,ord,numeral}, 'r) env"
  assumes m: "main E df rng = (w, None)" and ids: "df ''rxn_id'' = Some ids" and i: "idx < length ids"
  shows "\<exists>key. h5_name E (ids ! idx) = Some key
     \<and> map fst (reaction_section w key) = reaction_field_names
     \<and> length (reaction_section w key) = 20
     \<and> count_class Fingerprint (reaction_section w key) = 2
     \<and> count_class NumericCondition (reaction_section w key) = 10
     \<and> count_class CategoricalId (reaction_section w key) = 6
     \<and> count_class Target (reaction_section w key) = 2"
proof -
  from reaction_group_written[OF m ids i]
  obtain T :: "'c columns" and pa f key and r :: "'f reaction_values" where
    f: "conditions_h5 w = Some f" and k: "h5_name E (ids ! idx) = Some key"
    and g: "f key = Some (condition_datasets r @ target_datasets (pa ! idx) (binary T ! idx))"
    by blast
  have s: "reaction_section w key = condition_datasets r @ target_datasets (pa ! idx) (binary T ! idx)"
    by (simp add: reaction_section_def f g)
  have "length (map fst (reaction_section w key)) = 20"
    unfolding s map_fst_condition_datasets by (simp add: reaction_field_names_def)
  then have len: "length (reaction_section w key) = 20" by simp
  have "h5_name E (ids ! idx) = Some key
     \<and> map fst (reaction_section w key) = reaction_field_names
     \<and> length (reaction_section w key) = 20
     \<and> count_class Fingerprint (reaction_section w key) = 2
     \<and> count_class NumericCondition (reaction_section w key) = 10
     \<and> count_class CategoricalId (reaction_section w key) = 6
     \<and> count_class Target (reaction_section w key) = 2"
    using k len map_fst_condition_datasets[of r "pa ! idx" "binary T ! idx"]
      count_condition_datasets[of r "pa ! idx" "binary T ! idx"]
    unfolding s by blast
  then show ?thesis ..
qed

lemma main_unique_sets:
  fixes E :: "('c, 'f::{zero,ord,numeral}, 'r) env"
  assumes m: "main E df rng = (w, None)" and p: "python_set E"
    and c1: "df ''startingmat_1_smiles'' = Some c1" and c2: "df ''startingmat_2_smiles'' = Some c2"
  obtains u1 u2 f1 f2 tr1 rng1 rng2 where
     "set u1 = py_str E ` set c1" "set u2 = py_str E ` set c2"
     "substrate_loop E u1 (Map.empty, [], rng) = ((f1, tr1, rng1), None)"
     "carbacid_loop E u2 (Map.empty, tr1, rng1) = ((f2, calls w, rng2), None)"
     "substrate_h5 w = Some f1" "carbacids_h5 w = Some f2"
proof -
  from main_None[OF m] obtain T :: "'c columns" and f1 tr1 rng1 f2 tr2 rng2 where
    T: "read_columns E df = Inr T"
    and l1: "substrate_loop E (list_set E (startingmat_1_smiles T)) (Map.empty, [], rng) = ((f1, tr1, rng1), None)"
    and l2': "carbacid_loop E (list_set E (startingmat_2_smiles T)) (Map.empty, tr1, rng1) = ((f2, tr2, rng2), None)"
    and w: "substrate_h5 w = Some f1" "carbacids_h5 w = Some f2" and tr2: "calls w = tr2"
    by blast
  from l2' tr2
  have l2: "carbacid_loop E (list_set E (startingmat_2_smiles T)) (Map.empty, tr1, rng1) = ((f2, calls w, rng2), None)"
    by simp
  from read_columns_Inr(6,7)[OF T] c1 c2
  have s: "startingmat_1_smiles T = map (py_str E) c1" "startingmat_2_smiles T = map (py_str E) c2"
    by auto
  from p have u: "set (list_set E (startingmat_1_smiles T)) = py_str E ` set c1"
    "set (list_set E (startingmat_2_smiles T)) = py_str E ` set c2"
    by (simp_all add: python_set_def s)
  show ?thesis by (rule that[OF u l1 l2 w])
qed

section \<open>Where an error can come from\<close>

lemma no_miss_simps:
  "no_miss IndexError" "no_miss ParseError" "no_miss EmbeddingError" "no_miss ConformerRangeError"
  "no_miss CastError" "no_miss NameError" "no_miss (ValueError s)"
  "no_miss (KeyError Column k)" "no_miss (KeyError FeatureTable k)" "no_miss (KeyError Container k)"
  by (simp_all add: no_miss_def)

lemma index_no_miss: "index xs i = Inl e \<Longrightarrow> no_miss e"
  by (auto simp: index_def no_miss_simps split: if_splits)

lemma atom_step_no_miss: "atom_step E conf idx i acc = Inl e \<Longrightarrow> no_miss e"
  unfolding atom_step_def
  by (auto simp: ebind_Inl lookup_Inl GetAtomPosition_def no_miss_simps split: if_splits)

lemma atom_loop_no_miss: "atom_loop E conf ias acc = Inl e \<Longrightarrow> no_miss e"
proof (induction ias arbitrary: acc)
  case Nil
  then show ?case by simp
next
  case (Cons p ias)
  obtain idx i where p: "p = (idx, i)" by (cases p)
  show ?case
  proof (cases "atom_step E conf idx i acc")
    case (Inl e')
    with Cons.prems p have "e = e'" by simp
    with Inl show ?thesis by (simp add: atom_step_no_miss)
  next
    case (Inr acc')
    with Cons.prems p have "atom_loop E conf ias acc' = Inl e" by simp
    then show ?thesis by (rule Cons.IH)
  qed
qed

lemma get_3dG_from_smi_no_miss:
  "get_3dG_from_smi E smi seed rng = (Inl e, rng') \<Longrightarrow> no_miss e"
  unfolding get_3dG_from_smi_def
  by (auto simp: ebind_Inl squareform_pdist_def no_miss_simps
      split: option.splits if_splits prod.splits dest: atom_loop_no_miss)

lemma create_group_no_miss: "create_group f n = Inl e \<Longrightarrow> no_miss e"
  by (auto simp: create_group_def no_miss_simps split: option.splits)

lemma create_dataset_no_miss: "create_dataset f k n d = Inl e \<Longrightarrow> no_miss e"
  by (auto simp: create_dataset_def no_miss_simps split: option.splits if_splits)

lemma create_datasets_no_miss: "create_datasets f k ds = (f', Some e) \<Longrightarrow> no_miss e"
proof (induction ds arbitrary: f)
  case Nil
  then show ?case by simp
next
  case (Cons p ds)
  obtain n d where p: "p = (n, d)" by (cases p)
  show ?case
  proof (cases "create_dataset f k n d")
    case (Inl e')
    with Cons.prems p have "e = e'" by simp
    with Inl show ?thesis by (simp add: create_dataset_no_miss)
  next
    case (Inr f1)
    with Cons.prems p have "create_datasets f1 k ds = (f', Some e)" by simp
    then show ?thesis by (rule Cons.IH)
  qed
qed

lemma substrate_step_no_miss: "substrate_step E smi s = (s', Some e) \<Longrightarrow> no_miss e"
  unfolding substrate_step_def call_featurizer_def
  by (auto split: prod.splits sum.splits
      dest: get_3dG_from_smi_no_miss create_group_no_miss create_datasets_no_miss)

lemma carbacid_step_no_miss: "carbacid_step E smi s = (s', Some e) \<Longrightarrow> no_miss e"
  unfolding carbacid_step_def call_featurizer_def
  by (auto split: prod.splits sum.splits
      dest: get_3dG_from_smi_no_miss create_group_no_miss create_datasets_no_miss)

lemma substrate_loop_no_miss: "substrate_loop E smis s = (s', Some e) \<Longrightarrow> no_miss e"
proof (induction smis arbitrary: s)
  case Nil
  then show ?case by simp
next
  case (Cons smi smis)
  obtain s1 r where st: "substrate_step E smi s = (s1, r)" by (cases "substrate_step E smi s")
  show ?case
  proof (cases r)
    case None
    with Cons.prems st have "substrate_loop E smis s1 = (s', Some e)" by simp
    then show ?thesis by (rule Cons.IH)
  next
    case (Some e')
    with Cons.prems st have "e = e'" by simp
    with Some st show ?thesis by (simp add: substrate_step_no_miss)
  qed
qed

lemma carbacid_loop_no_miss: "carbacid_loop E smis s = (s', Some e) \<Longrightarrow> no_miss e"
proof (induction smis arbitrary: s)
  case Nil
  then show ?case by simp
next
  case (Cons smi smis)
  obtain s1 r where st: "carbacid_step E smi s = (s1, r)" by (cases "carbacid_step E smi s")
  show ?case
  proof (cases r)
    case None
    with Cons.prems st have "carbacid_loop E smis s1 = (s', Some e)" by simp
    then show ?thesis by (rule Cons.IH)
  next
    case (Some e')
    with Cons.prems st have "e = e'" by simp
    with Some st show ?thesis by (simp add: carbacid_step_no_miss)
  qed
qed

lemma product_all_loop_no_miss: "product_all_loop E monos dis ps = Inl e \<Longrightarrow> no_miss e"
proof (induction ps)
  case Nil
  then show ?case by simp
next
  case (Cons p ps)
  obtain i x where p: "p = (i, x)" by (cases p)
  from Cons.prems p Cons.IH show ?case
    by (auto simp: ebind_Inl plus_cells_def to_float_def no_miss_simps
        split: option.splits dest: index_no_miss)
qed

lemma rxn_smi_loop_no_miss: "rxn_smi_loop s1 s2 ps d = Inl e \<Longrightarrow> no_miss e"
proof (induction ps arbitrary: d)
  case Nil
  then show ?case by simp
next
  case (Cons p ps)
  obtain i x where p: "p = (i, x)" by (cases p)
  from Cons.prems p Cons.IH show ?case
    by (auto simp: ebind_Inl dest: index_no_miss)
qed

lemma float_at_no_miss: "float_at E xs idx = Inl e \<Longrightarrow> no_miss e"
  by (auto simp: float_at_def ebind_Inl to_float_def no_miss_simps
      split: option.splits dest: index_no_miss)

lemma get_fp_no_miss: "get_fp_from_smi E smi = Inl e \<Longrightarrow> no_miss e"
  by (auto simp: get_fp_from_smi_def no_miss_simps split: option.splits)

lemma id_at_no_miss:
  assumes "vocabulary_total E" and "id_at (get_dict_for_embedding E xs) xs idx = Inl e"
  shows "no_miss e"
proof (cases "idx < length xs")
  case True
  then have "xs ! idx \<in> set xs" by simp
  with assms(1) obtain v where "get_dict_for_embedding E xs (xs ! idx) = Some v"
    unfolding vocabulary_total_def by blast
  with True assms(2) show ?thesis by (simp add: id_at_def ebind_def index_def lookup_def)
next
  case False
  with assms(2) show ?thesis by (simp add: id_at_def ebind_def index_def no_miss_simps)
qed

lemma reaction_row_no_miss:
  assumes v: "vocabulary_total E"
    and r: "reaction_row E T (build_vocabularies E T) idx = Inl e"
  shows "no_miss e"
  using r unfolding reaction_row_def build_vocabularies_def vocabularies.simps ebind_Inl
  by (elim disjE exE conjE)
     (erule index_no_miss float_at_no_miss get_fp_no_miss id_at_no_miss[OF v] | simp)+

lemma reaction_step_no_miss:
  assumes "vocabulary_total E"
    and "reaction_step E T (build_vocabularies E T) pa idx k f = (f', Some e)"
  shows "no_miss e"
  using assms(2) unfolding reaction_step_def
  by (auto simp: no_miss_simps split: sum.splits option.splits prod.splits
      dest: reaction_row_no_miss[OF assms(1)] create_group_no_miss create_datasets_no_miss
        create_dataset_no_miss index_no_miss)

lemma reaction_loop_no_miss:
  assumes v: "vocabulary_total E"
  shows "reaction_loop E T (build_vocabularies E T) pa ps f = (f', Some e) \<Longrightarrow> no_miss e"
proof (induction ps arbitrary: f)
  case Nil
  then show ?case by simp
next
  case (Cons p ps)
  obtain i k where p: "p = (i, k)" by (cases p)
  obtain f1 r where st: "reaction_step E T (build_vocabularies E T) pa i k f = (f1, r)"
    by (cases "reaction_step E T (build_vocabularies E T) pa i k f")
  show ?case
  proof (cases r)
    case None
    with Cons.prems st p
    have "reaction_loop E T (build_vocabularies E T) pa ps f1 = (f', Some e)" by simp
    then show ?thesis by (rule Cons.IH)
  next
    case (Some e')
    with Cons.prems st p have "e = e'" by simp
    with Some st show ?thesis by (simp add: reaction_step_no_miss[OF v])
  qed
qed

lemma read_columns_no_miss: "read_columns E df = Inl e \<Longrightarrow> no_miss e"
  by (auto dest!: read_columns_Inl simp: no_miss_simps)

lemma main_no_miss:
  fixes E :: "('c, 'f::{zero,ord,numeral}, 'r) env"
  assumes v: "vocabulary_total E" and m: "main E df rng = (w, Some e)"
  shows "no_miss e"
  using m unfolding main_def Let_def
  by (auto split: sum.splits prod.splits option.splits
      dest: read_columns_no_miss product_all_loop_no_miss rxn_smi_loop_no_miss
        substrate_loop_no_miss carbacid_loop_no_miss reaction_loop_no_miss[OF v])

section \<open>The example run\<close>

lemma sqrt_le_4: "sqrt x \<le> 4 \<longleftrightarrow> x \<le> 16"
proof -
  have "sqrt 16 = 4" using real_sqrt_abs[of 4] by simp
  then show ?thesis using real_sqrt_le_iff[of x 16] by simp
qed

lemma upt2: "[0..<2] = [0, 1]" by (simp add: upt_rec)

lemma upt3: "[0..<3] = [0, 1, 2]" by (simp add: upt_rec)

lemma example_water:
  "get_3dG_from_smi example_env ''O'' seed rng = (Inr water_features, Suc rng)"
  by (simp add: get_3dG_from_smi_def example_env_def water_def H_atom_def example_conformer_def
      atom_step_def ebind_def lookup_def str_bool_def GetAtomPosition_def list_of_point_def
      empty_acc_def squareform_pdist_def enumerate_eq_zip upt3 Let_def water_features_def
      fill_diagonal_def np_where_def vstack_def le_4_def euclidean_def sqrt_le_4 power2_eq_square)

lemma example_dihydrogen:
  "get_3dG_from_smi example_env ''[H][H]'' seed rng = (Inr dihydrogen_features, Suc rng)"
  by (simp add: get_3dG_from_smi_def example_env_def dihydrogen_def H_atom_def example_conformer_def
      atom_step_def ebind_def lookup_def str_bool_def GetAtomPosition_def list_of_point_def
      empty_acc_def squareform_pdist_def enumerate_eq_zip upt2 Let_def dihydrogen_features_def
      fill_diagonal_def np_where_def vstack_def le_4_def euclidean_def sqrt_le_4 power2_eq_square)

lemma example_parse_water: "MolFromSmiles_AddHs example_env ''O'' = Some water"
  by (simp add: example_env_def)

lemma example_read_columns:
  "read_columns example_env example_table = Inr
     \<lparr>rxn_id = [Text ''rxn_1'', Text ''rxn_2''],
      temperature_degC = [Number 25, Number 40],
      time_h = [Number 12, Number 12],
      atmosphere = [''air'', ''N2''],
      scale_mol = [Number 100, Number 100],
      concentration_moll = [Number 50, Number 50],
      startingmat_1_smiles = [''O'', ''O''],
      startingmat_2_smiles = [''[H][H]'', ''[H][H]''],
      startingmat_2_eq = [Number 2, Number 3],
      reagent_1_smiles = [''O=S(=O)(O)O'', ''O=S(=O)(O)O''],
      reagent_1_eq = [Number 1, Number 1],
      catalyst_1_smiles = [''[Ag+]'', ''[Fe+2]''],
      catalyst_1_eq = [Number (1/10), Number (1/5)],
      additive_1_smiles = [''none'', ''none''],
      additive_1_eq = [Number 0, Number 0],
      solvent_1_smiles = [''CS(C)=O'', ''CS(C)=O''],
      solvent_1_fraction = [Number (1/2), Number (1/2)],
      solvent_2_smiles = [''O'', ''O''],
      solvent_2_fraction = [Number (1/2), Number (1/2)],
      product_mono = [Number (1/2), Number 0],
      product_di = [Number (1/5), Number 0],
      product_non = [Number (3/10), Number 1],
      binary = [Number 1, Number 0]\<rparr>"
  by (simp add: read_columns_def example_table_def ebind_def lookup_def example_env_def)

lemma example_read: "read_columns example_env example_table = Inr example_columns"
  unfolding example_columns_def by (rule example_read_columns)

lemma example_cols:
  "example_table ''rxn_id'' = Some [Text ''rxn_1'', Text ''rxn_2'']"
  "example_table ''product_mono'' = Some [Number (1/2), Number 0]"
  "example_table ''product_di'' = Some [Number (1/5), Number 0]"
  "example_table ''startingmat_1_smiles'' = Some [Text ''O'', Text ''O'']"
  "example_table ''startingmat_2_smiles'' = Some [Text ''[H][H]'', Text ''[H][H]'']"
  by (simp_all add: example_table_def)

lemma example_product_all:
  "product_all_loop example_env (product_mono example_columns) (product_di example_columns)
     (enumerate 0 (product_mono example_columns)) = Inr [7/10, 0]"
  by (simp add: example_columns_def enumerate_eq_zip upt2 ebind_def index_def plus_cells_def
      to_float_def example_env_def example_py_add_def)

lemma example_rxn_smi:
  "\<exists>d. rxn_smi_loop (startingmat_1_smiles example_columns) (startingmat_2_smiles example_columns)
     (enumerate 0 (rxn_id example_columns)) Map.empty = Inr d"
  by (simp add: example_columns_def enumerate_eq_zip upt2 ebind_def index_def)

lemma example_unique:
  "list_set example_env (startingmat_1_smiles example_columns) = [''O'']"
  "list_set example_env (startingmat_2_smiles example_columns) = [''[H][H]'']"
  by (simp_all add: example_env_def example_columns_def)

lemma example_substrate_loop:
  "substrate_loop example_env [''O''] (Map.empty, [], rng) =
     ((Map.empty(''O'' \<mapsto> substrate_datasets ''a'' water_features @
         substrate_datasets ''b'' water_features @ substrate_datasets ''c'' water_features @
         substrate_datasets ''d'' water_features @ substrate_datasets ''e'' water_features),
       [] @ five_calls 1 ''O'', Suc (Suc (Suc (Suc (Suc rng))))), None)"
proof -
  have "substrate_step example_env ''O'' (Map.empty, [], rng) =
     ((Map.empty(''O'' \<mapsto> substrate_datasets ''a'' water_features @
         substrate_datasets ''b'' water_features @ substrate_datasets ''c'' water_features @
         substrate_datasets ''d'' water_features @ substrate_datasets ''e'' water_features),
       [] @ five_calls 1 ''O'', Suc (Suc (Suc (Suc (Suc rng))))), None)"
    by (rule substrate_step_ok; (rule example_water | simp))
  then show ?thesis by simp
qed

lemma example_carbacid_loop:
  "carbacid_loop example_env [''[H][H]''] (Map.empty, tr, rng) =
     ((Map.empty(''[H][H]'' \<mapsto> carbacid_datasets ''a'' dihydrogen_features @
         carbacid_datasets ''b'' dihydrogen_features @ carbacid_datasets ''c'' dihydrogen_features @
         carbacid_datasets ''d'' dihydrogen_features @ carbacid_datasets ''e'' dihydrogen_features),
       tr @ five_calls 2 ''[H][H]'', Suc (Suc (Suc (Suc (Suc rng))))), None)"
proof -
  have "carbacid_step example_env ''[H][H]'' (Map.empty, tr, rng) =
     ((Map.empty(''[H][H]'' \<mapsto> carbacid_datasets ''a'' dihydrogen_features @
         carbacid_datasets ''b'' dihydrogen_features @ carbacid_datasets ''c'' dihydrogen_features @
         carbacid_datasets ''d'' dihydrogen_features @ carbacid_datasets ''e'' dihydrogen_features),
       tr @ five_calls 2 ''[H][H]'', Suc (Suc (Suc (Suc (Suc rng))))), None)"
    by (rule carbacid_step_ok; (rule example_dihydrogen | simp))
  then show ?thesis by simp
qed

lemma example_reaction_row:
  "idx < 2 \<Longrightarrow> \<exists>r. reaction_row example_env example_columns
     (build_vocabularies example_env example_columns) idx = Inr r"
  unfolding reaction_row_def
  by (cases idx; cases "idx - 1")
     (simp_all add: example_columns_def build_vocabularies_def ebind_def index_def
      float_at_def id_at_def to_float_def lookup_def get_fp_from_smi_def example_env_def
      first_seen_ids_def)

lemma example_reaction_loop:
  "\<exists>f. reaction_loop example_env example_columns (build_vocabularies example_env example_columns)
     [7/10, 0] (enumerate 0 (rxn_id example_columns)) Map.empty = (f, None)"
proof -
  from example_reaction_row[of 0] obtain r0 where
    r0: "reaction_row example_env example_columns
     (build_vocabularies example_env example_columns) 0 = Inr r0" by auto
  from example_reaction_row[of 1] obtain r1 where
    r1: "reaction_row example_env example_columns
     (build_vocabularies example_env example_columns) 1 = Inr r1" by auto
  have e: "enumerate 0 (rxn_id example_columns) = [(0, Text ''rxn_1''), (1, Text ''rxn_2'')]"
    by (simp add: example_columns_def enumerate_eq_zip upt2)
  have s0: "reaction_step example_env example_columns
      (build_vocabularies example_env example_columns) [7/10, 0] 0 (Text ''rxn_1'') Map.empty
    = (Map.empty(''rxn_1'' \<mapsto> condition_datasets r0 @
         target_datasets ([7/10, 0] ! 0) (binary example_columns ! 0)), None)"
    by (rule reaction_step_ok[OF r0]) (simp_all add: example_env_def example_columns_def)
  have s1: "reaction_step example_env example_columns
      (build_vocabularies example_env example_columns) [7/10, 0] 1 (Text ''rxn_2'')
      (Map.empty(''rxn_1'' \<mapsto> condition_datasets r0 @
         target_datasets ([7/10, 0] ! 0) (binary example_columns ! 0)))
    = ((Map.empty(''rxn_1'' \<mapsto> condition_datasets r0 @
         target_datasets ([7/10, 0] ! 0) (binary example_columns ! 0)))
        (''rxn_2'' \<mapsto> condition_datasets r1 @
         target_datasets ([7/10, 0] ! 1) (binary example_columns ! 1)), None)"
    by (rule reaction_step_ok[OF r1]) (simp_all add: example_env_def example_columns_def)
  have "reaction_loop example_env example_columns (build_vocabularies example_env example_columns)
     [7/10, 0] [(0, Text ''rxn_1''), (1, Text ''rxn_2'')] Map.empty
    = ((Map.empty(''rxn_1'' \<mapsto> condition_datasets r0 @
         target_datasets ([7/10, 0] ! 0) (binary example_columns ! 0)))
        (''rxn_2'' \<mapsto> condition_datasets r1 @
         target_datasets ([7/10, 0] ! 1) (binary example_columns ! 1)), None)"
    by (simp only: reaction_loop.simps s0 s1 prod.case option.case)
  then show ?thesis unfolding e by blast
qed

lemma example_run: "main example_env example_table 0 = (example_world, None)"
proof -
  from example_rxn_smi obtain d where
    d: "rxn_smi_loop (startingmat_1_smiles example_columns) (startingmat_2_smiles example_columns)
     (enumerate 0 (rxn_id example_columns)) Map.empty = Inr d" ..
  from example_reaction_loop obtain f where
    f: "reaction_loop example_env example_columns (build_vocabularies example_env example_columns)
     [7/10, 0] (enumerate 0 (rxn_id example_columns)) Map.empty = (f, None)" ..
  have "snd (main example_env example_table 0) = None"
    unfolding main_def
    by (simp add: example_read example_product_all example_unique d example_substrate_loop
        example_carbacid_loop f Let_def
        del: substrate_loop.simps carbacid_loop.simps reaction_loop.simps)
  then show ?thesis unfolding example_world_def by (simp add: prod_eq_iff)
qed

lemma dom_vocabulary_loop: "dom (vocabulary_loop xs d n) = dom d \<union> set xs"
  by (induction xs arbitrary: d n) (auto split: option.splits)

lemma example_vocabulary_total: "vocabulary_total example_env"
  by (simp add: vocabulary_total_def example_env_def first_seen_ids_def dom_vocabulary_loop)

lemma example_python_set: "python_set example_env"
  by (simp add: python_set_def example_env_def)

section \<open>The claims\<close>

text \<open>
  Claim C1. In every successful call of the featurizer, for every ordered pair of distinct
  atom indices \<open>(i, j)\<close> whose distance in the conformer is at most 4, both \<open>(i, j)\<close> and
  \<open>(j, i)\<close> are proximity edges, and no pair \<open>(k, k)\<close> is one. The distance of
  two atoms is the one \<open>pdist\<close> computes for the pair: the metric of the position with
  the lower index and the position with the higher one.
\<close>

theorem proximity_edges_symmetric:
  fixes E :: "('c, 'f::{zero,ord,numeral}, 'r) env"
  assumes "get_3dG_from_smi E smi seed rng = (Inr out, rng')"
    and "i < length (crds_3d out)" and "j < length (crds_3d out)" and "i \<noteq> j"
    and "conformer_distance (pdist_metric E) (crds_3d out) i j \<le> 4"
  shows "(i, j) \<in> edges (edge_3d out) \<and> (j, i) \<in> edges (edge_3d out)
     \<and> (\<forall>k. (k, k) \<notin> edges (edge_3d out))"
proof -
  obtain acc :: "'f atom_acc" and M where
    sq: "squareform_pdist (pdist_metric E) (acc_crds_3d acc) = Inr M"
    and c: "crds_3d out = acc_crds_3d acc"
    and e: "edge_3d out = vstack (np_where le_4 (fill_diagonal M PInf))"
    by (rule get_3dG_from_smi_Inr[OF assms(1)])
  have sym: "conformer_distance (pdist_metric E) (crds_3d out) j i
     = conformer_distance (pdist_metric E) (crds_3d out) i j"
    by (simp add: conformer_distance_def min.commute max.commute)
  show ?thesis
    using assms(2-5) sym unfolding e edges_vstack edge_3d_char[OF sq] c by auto
qed

theorem proximity_edges_symmetric_witness:
  "get_3dG_from_smi example_env ''O'' 0xF00A 0 = (Inr water_features, 1)
   \<and> (0::nat) < length (crds_3d water_features) \<and> (1::nat) < length (crds_3d water_features)
   \<and> conformer_distance (pdist_metric example_env) (crds_3d water_features) 0 1 \<le> 4
   \<and> (0, 1) \<in> edges (edge_3d water_features) \<and> (1, 0) \<in> edges (edge_3d water_features)
   \<and> (\<forall>k. (k, k) \<notin> edges (edge_3d water_features))"
proof -
  have f: "get_3dG_from_smi example_env ''O'' 0xF00A 0 = (Inr water_features, 1)"
    by (simp add: example_water)
  have l: "(0::nat) < length (crds_3d water_features)" "(1::nat) < length (crds_3d water_features)"
    by (simp_all add: water_features_def)
  have d: "conformer_distance (pdist_metric example_env) (crds_3d water_features) 0 1 \<le> 4"
    by (simp add: conformer_distance_def example_env_def water_features_def euclidean_def
        sqrt_le_4 power2_eq_square)
  from proximity_edges_symmetric[OF f l _ d] f l d show ?thesis by simp
qed

text \<open>
  Claim C2. In every successful call of the featurizer, every bond of the parsed molecule
  contributes both of its directed arcs to the bond edges.
\<close>

theorem bond_edges_both_directions:
  assumes "get_3dG_from_smi E smi seed rng = (Inr out, rng')"
    and "MolFromSmiles_AddHs E smi = Some m"
    and "b \<in> set (GetBonds m)"
  shows "(GetBeginAtomIdx b, GetEndAtomIdx b) \<in> edges (edge_2d out)
     \<and> (GetEndAtomIdx b, GetBeginAtomIdx b) \<in> edges (edge_2d out)"
proof -
  from assms(1,2) have "edge_2d out = bond_loop (GetBonds m) ([], [])"
    by (auto elim!: get_3dG_from_smi_Inr)
  then show ?thesis using assms(3) by (auto simp: bond_loop_edges)
qed

theorem bond_edges_both_directions_witness:
  "get_3dG_from_smi example_env ''O'' 0xF00A 0 = (Inr water_features, 1)
   \<and> MolFromSmiles_AddHs example_env ''O'' = Some water
   \<and> \<lparr>GetBeginAtomIdx = 0, GetEndAtomIdx = 2\<rparr> \<in> set (GetBonds water)
   \<and> (0, 2) \<in> edges (edge_2d water_features) \<and> (2, 0) \<in> edges (edge_2d water_features)"
proof -
  have f: "get_3dG_from_smi example_env ''O'' 0xF00A 0 = (Inr water_features, 1)"
    by (simp add: example_water)
  have b: "\<lparr>GetBeginAtomIdx = 0, GetEndAtomIdx = 2\<rparr> \<in> set (GetBonds water)"
    by (simp add: water_def)
  from bond_edges_both_directions[OF f example_parse_water b] f example_parse_water b
  show ?thesis by simp
qed

text \<open>
  Claim C3. In a run that succeeds, for every row of the table the dataset \<open>trg_yld\<close> of
  the section written under the row's reaction id holds \<open>float(product_mono + product_di)\<close>
  of that row: the sum \<open>+\<close> gives for the two cells, converted by \<open>float\<close>.
\<close>

theorem trg_yld_is_float_of_sum:
  assumes "main E df rng = (w, None)"
    and "df ''rxn_id'' = Some ids" and "df ''product_mono'' = Some pm"
    and "df ''product_di'' = Some pd" and "idx < length ids"
  shows "\<exists>key s y. h5_name E (ids ! idx) = Some key
     \<and> idx < length pm \<and> idx < length pd
     \<and> py_add E (pm ! idx) (pd ! idx) = Some s \<and> py_float E s = Some y
     \<and> map_of (reaction_section w key) ''trg_yld'' = Some (FloatArray [y])"
proof -
  from reaction_group_written[OF assms(1,2,5)] obtain T pa f key r where
    T: "read_columns E df = Inr T"
    and pa: "product_all_loop E (product_mono T) (product_di T) (enumerate 0 (product_mono T)) = Inr pa"
    and f: "conditions_h5 w = Some f" and k: "h5_name E (ids ! idx) = Some key"
    and i: "idx < length pa"
    and g: "f key = Some (condition_datasets r @ target_datasets (pa ! idx) (binary T ! idx))"
    by blast
  from read_columns_Inr(3,4)[OF T] assms(3,4) have c: "product_mono T = pm" "product_di T = pd"
    by simp_all
  from product_all_loop_Inr[OF pa] have len: "length pa = length pm"
    and all: "\<And>n. n < length pm \<Longrightarrow> \<exists>s. n < length pm \<and> n < length pd
        \<and> py_add E (pm ! n) (pd ! n) = Some s \<and> py_float E s = Some (pa ! n)"
    by (auto simp: c nth_enumerate_eq)
  from i len have "idx < length pm" by simp
  from all[OF this] obtain s where s: "idx < length pm" "idx < length pd"
    "py_add E (pm ! idx) (pd ! idx) = Some s" "py_float E s = Some (pa ! idx)"
    by blast
  have "map_of (reaction_section w key) ''trg_yld'' = Some (FloatArray [pa ! idx])"
    by (simp add: reaction_section_def f g condition_datasets_def target_datasets_def)
  with k s show ?thesis by blast
qed

theorem trg_yld_is_float_of_sum_witness:
  "main example_env example_table 0 = (example_world, None)
   \<and> example_table ''rxn_id'' = Some [Text ''rxn_1'', Text ''rxn_2'']
   \<and> example_table ''product_mono'' = Some [Number (1/2), Number 0]
   \<and> example_table ''product_di'' = Some [Number (1/5), Number 0]
   \<and> map_of (reaction_section example_world ''rxn_1'') ''trg_yld'' = Some (FloatArray [7/10])"
  using trg_yld_is_float_of_sum[OF example_run example_cols(1,2,3), of 0] example_run example_cols
  by (auto simp: example_env_def example_py_add_def)

text \<open>
  Claim C4, as amended. In a run that succeeds, for every row of the table the section
  written under the row's reaction id holds exactly the twenty datasets of
  \<open>reaction_field_names\<close>: two fingerprints, ten numeric condition values (not eight), six
  categorical ids and two targets.
\<close>

theorem reaction_section_twenty_fields:
  assumes "main E df rng = (w, None)" and "df ''rxn_id'' = Some ids" and "idx < length ids"
  shows "\<exists>key. h5_name E (ids ! idx) = Some key
     \<and> map fst (reaction_section w key) = reaction_field_names
     \<and> length (reaction_section w key) = 20
     \<and> count_class Fingerprint (reaction_section w key) = 2
     \<and> count_class NumericCondition (reaction_section w key) = 10
     \<and> count_class CategoricalId (reaction_section w key) = 6
     \<and> count_class Target (reaction_section w key) = 2"
  using assms by (rule reaction_section_layout)

theorem reaction_section_twenty_fields_witness:
  "main example_env example_table 0 = (example_world, None)
   \<and> example_table ''rxn_id'' = Some [Text ''rxn_1'', Text ''rxn_2'']
   \<and> length (reaction_section example_world ''rxn_2'') = 20
   \<and> count_class NumericCondition (reaction_section example_world ''rxn_2'') = 10"
  using reaction_section_twenty_fields[OF example_run example_cols(1), of 1] example_run example_cols
  by (auto simp: example_env_def)

text \<open>
  Claim C4 as stated fails on the example run: the section of reaction \<open>rxn_1\<close> does not
  have the layout with eight numeric conditions.
\<close>

theorem reaction_section_counterexample:
  "\<not> claimed_reaction_layout (reaction_section example_world ''rxn_1'')"
  using reaction_section_layout[OF example_run example_cols(1), of 0]
  by (auto simp: example_env_def claimed_reaction_layout_def)

text \<open>
  Claim C5. In a run that succeeds, for every value of the first-reactant column the
  substrate container holds, under the descriptor, exactly forty datasets with distinct
  names: the eight feature names, \<open>to_keep\<close> among them, for each of the suffixes \<open>a\<close> to
  \<open>e\<close>. For every value of the second-reactant column the acid container holds exactly
  thirty-five: the seven feature names without \<open>to_keep\<close>, for each suffix.
\<close>

theorem molecule_sections_named:
  fixes E :: "('c, 'f::{zero,ord,numeral}, 'r) env"
  assumes "main E df rng = (w, None)" and "python_set E"
    and "df ''startingmat_1_smiles'' = Some c1" and "df ''startingmat_2_smiles'' = Some c2"
    and "x1 \<in> set c1" and "x2 \<in> set c2"
  shows "map fst (substrate_section w (py_str E x1)) = section_names ''1'' feature_names
     \<and> length (substrate_section w (py_str E x1)) = 40
     \<and> distinct (map fst (substrate_section w (py_str E x1)))
     \<and> map fst (carbacid_section w (py_str E x2)) = section_names ''2'' acid_feature_names
     \<and> length (carbacid_section w (py_str E x2)) = 35
     \<and> distinct (map fst (carbacid_section w (py_str E x2)))"
proof -
  obtain u1 u2 f1 f2 tr1 rng1 rng2 where
    u: "set u1 = py_str E ` set c1" "set u2 = py_str E ` set c2"
    and l1: "substrate_loop E u1 (Map.empty, [], rng) = ((f1, tr1, rng1), None)"
    and l2: "carbacid_loop E u2 (Map.empty, tr1, rng1) = ((f2, calls w, rng2), None)"
    and w: "substrate_h5 w = Some f1" "carbacids_h5 w = Some f2"
    by (rule main_unique_sets[OF assms(1-4)])
  from assms(5,6) u have i: "py_str E x1 \<in> set u1" "py_str E x2 \<in> set u2" by auto
  note a1 = substrate_loop_None[OF l1, THEN conjunct2, THEN conjunct2, THEN conjunct2, THEN conjunct1]
  note a2 = carbacid_loop_None[OF l2, THEN conjunct2, THEN conjunct2, THEN conjunct2, THEN conjunct1]
  from bspec[OF a1 i(1)] obtain g1 where
    g1: "f1 (py_str E x1) = Some g1" "map fst g1 = section_names ''1'' feature_names" by blast
  from bspec[OF a2 i(2)] obtain g2 where
    g2: "f2 (py_str E x2) = Some g2" "map fst g2 = section_names ''2'' acid_feature_names" by blast
  have s1: "substrate_section w (py_str E x1) = g1" by (simp add: substrate_section_def w g1)
  have s2: "carbacid_section w (py_str E x2) = g2" by (simp add: carbacid_section_def w g2)
  have "length (map fst g1) = 40" unfolding g1(2) by (rule substrate_names_40(1))
  then have n1: "length g1 = 40" by simp
  have "length (map fst g2) = 35" unfolding g2(2) by (rule carbacid_names_35(1))
  then have n2: "length g2 = 35" by simp
  have d1: "distinct (map fst g1)" unfolding g1(2) by (rule substrate_names_40(2))
  have d2: "distinct (map fst g2)" unfolding g2(2) by (rule carbacid_names_35(2))
  show ?thesis
    unfolding s1 s2 by (intro conjI g1(2) g2(2) n1 n2 d1 d2)
qed

theorem molecule_sections_named_witness:
  "main example_env example_table 0 = (example_world, None) \<and> python_set example_env
   \<and> example_table ''startingmat_1_smiles'' = Some [Text ''O'', Text ''O'']
   \<and> example_table ''startingmat_2_smiles'' = Some [Text ''[H][H]'', Text ''[H][H]'']
   \<and> length (substrate_section example_world ''O'') = 40
   \<and> length (carbacid_section example_world ''[H][H]'') = 35"
  using molecule_sections_named[OF example_run example_python_set example_cols(4,5),
      of "Text ''O''" "Text ''[H][H]''"] example_run example_python_set example_cols
  by (simp add: example_env_def)

text \<open>
  Claim C6. In a run that succeeds, for every descriptor of either reactant column the
  featurizer is called exactly five times for that container, with the seeds 0xF00A,
  0xF00B, 0xF00C, 0xF00D and 0xF00E in this order, the same for both containers.
\<close>

theorem five_seeds_per_descriptor:
  fixes E :: "('c, 'f::{zero,ord,numeral}, 'r) env"
  assumes "main E df rng = (w, None)" and "python_set E"
    and "df ''startingmat_1_smiles'' = Some c1" and "df ''startingmat_2_smiles'' = Some c2"
    and "x1 \<in> set c1" and "x2 \<in> set c2"
  shows "seeds_called 1 (py_str E x1) (calls w) = [0xF00A, 0xF00B, 0xF00C, 0xF00D, 0xF00E]
     \<and> seeds_called 2 (py_str E x2) (calls w) = [0xF00A, 0xF00B, 0xF00C, 0xF00D, 0xF00E]"
proof -
  obtain u1 u2 f1 f2 tr1 rng1 rng2 where
    u: "set u1 = py_str E ` set c1" "set u2 = py_str E ` set c2"
    and l1: "substrate_loop E u1 (Map.empty, [], rng) = ((f1, tr1, rng1), None)"
    and l2: "carbacid_loop E u2 (Map.empty, tr1, rng1) = ((f2, calls w, rng2), None)"
    and w: "substrate_h5 w = Some f1" "carbacids_h5 w = Some f2"
    by (rule main_unique_sets[OF assms(1-4)])
  from assms(5,6) u have i: "py_str E x1 \<in> set u1" "py_str E x2 \<in> set u2" by auto
  note d1 = substrate_loop_None[OF l1, THEN conjunct1]
  note d2 = carbacid_loop_None[OF l2, THEN conjunct1]
  from substrate_loop_None[OF l1, THEN conjunct2, THEN conjunct2, THEN conjunct1]
  have t1: "tr1 = concat (map (five_calls 1) u1)" by simp
  note t2 = carbacid_loop_None[OF l2, THEN conjunct2, THEN conjunct2, THEN conjunct1]
  have "seeds_called 1 (py_str E x1) (calls w) = [0xF00A, 0xF00B, 0xF00C, 0xF00D, 0xF00E]"
    using i(1) by (simp add: t2 t1 seeds_called_append seeds_called_concat[OF d1]
        seeds_called_concat[OF d2])
  moreover
  have "seeds_called 2 (py_str E x2) (calls w) = [0xF00A, 0xF00B, 0xF00C, 0xF00D, 0xF00E]"
    using i(2) by (simp add: t2 t1 seeds_called_append seeds_called_concat[OF d1]
        seeds_called_concat[OF d2])
  ultimately show ?thesis by (rule conjI)
qed

theorem five_seeds_per_descriptor_witness:
  "main example_env example_table 0 = (example_world, None) \<and> python_set example_env
   \<and> example_table ''startingmat_1_smiles'' = Some [Text ''O'', Text ''O'']
   \<and> example_table ''startingmat_2_smiles'' = Some [Text ''[H][H]'', Text ''[H][H]'']
   \<and> seeds_called 1 ''O'' (calls example_world) = [0xF00A, 0xF00B, 0xF00C, 0xF00D, 0xF00E]
   \<and> seeds_called 2 ''[H][H]'' (calls example_world) = [0xF00A, 0xF00B, 0xF00C, 0xF00D, 0xF00E]"
  using five_seeds_per_descriptor[OF example_run example_python_set example_cols(4,5),
      of "Text ''O''" "Text ''[H][H]''"] example_run example_python_set example_cols
  by (simp add: example_env_def)

text \<open>
  Claim C7. When the vocabulary builder is total, no run ends with the \<open>KeyError\<close> of a
  vocabulary lookup, and every value of the reagent, solvent-1, solvent-2, catalyst,
  additive and atmosphere columns is a key of its vocabulary.
\<close>

theorem vocabulary_lookups_never_miss:
  fixes E :: "('c, 'f::{zero,ord,numeral}, 'r) env"
  assumes "vocabulary_total E"
  shows "snd (main E df rng) \<noteq> Some (KeyError Vocabulary k)
     \<and> (\<forall>T. read_columns E df = Inr T \<longrightarrow>
           set (reagent_1_smiles T) \<subseteq> dom (rea_dict (build_vocabularies E T))
         \<and> set (solvent_1_smiles T) \<subseteq> dom (so1_dict (build_vocabularies E T))
         \<and> set (solvent_2_smiles T) \<subseteq> dom (so2_dict (build_vocabularies E T))
         \<and> set (catalyst_1_smiles T) \<subseteq> dom (cat_dict (build_vocabularies E T))
         \<and> set (additive_1_smiles T) \<subseteq> dom (add_dict (build_vocabularies E T))
         \<and> set (atmosphere T) \<subseteq> dom (atm_dict (build_vocabularies E T)))"
proof
  show "snd (main E df rng) \<noteq> Some (KeyError Vocabulary k)"
  proof
    assume a: "snd (main E df rng) = Some (KeyError Vocabulary k)"
    then have "main E df rng = (fst (main E df rng), Some (KeyError Vocabulary k))"
      by (simp add: prod_eq_iff)
    from main_no_miss[OF assms this] show False by (simp add: no_miss_def)
  qed
next
  from assms show "\<forall>T. read_columns E df = Inr T \<longrightarrow>
           set (reagent_1_smiles T) \<subseteq> dom (rea_dict (build_vocabularies E T))
         \<and> set (solvent_1_smiles T) \<subseteq> dom (so1_dict (build_vocabularies E T))
         \<and> set (solvent_2_smiles T) \<subseteq> dom (so2_dict (build_vocabularies E T))
         \<and> set (catalyst_1_smiles T) \<subseteq> dom (cat_dict (build_vocabularies E T))
         \<and> set (additive_1_smiles T) \<subseteq> dom (add_dict (build_vocabularies E T))
         \<and> set (atmosphere T) \<subseteq> dom (atm_dict (build_vocabularies E T))"
    by (simp add: vocabulary_total_def build_vocabularies_def)
qed

theorem vocabulary_lookups_never_miss_witness:
  "vocabulary_total example_env
   \<and> read_columns example_env example_table = Inr example_columns
   \<and> snd (main example_env example_table 0) \<noteq> Some (KeyError Vocabulary ''O=S(=O)(O)O'')
   \<and> set (reagent_1_smiles example_columns)
        \<subseteq> dom (rea_dict (build_vocabularies example_env example_columns))"
  using vocabulary_lookups_never_miss[OF example_vocabulary_total, of example_table 0 "''O=S(=O)(O)O''"]
    example_vocabulary_total example_read
  by simp

text \<open>
  Claim C8. When a required column is missing from the table, the run ends with the
  \<open>KeyError\<close> of a missing column (the schema error of the specification) and none of
  the five output files has been created.
\<close>

theorem missing_column_no_output:
  assumes "c \<in> set required_columns" and "df c = None"
  shows "\<exists>c' \<in> set required_columns. df c' = None
     \<and> main E df rng = (no_output, Some (KeyError Column c'))"
proof (cases "read_columns E df")
  case (Inl e)
  from read_columns_Inl[OF Inl] obtain c' where
    "c' \<in> set required_columns" "df c' = None" "e = KeyError Column c'" by blast
  with Inl show ?thesis by (auto simp: main_def)
next
  case (Inr T)
  from read_columns_Inr(1)[OF Inr] assms show ?thesis by blast
qed

theorem missing_column_no_output_witness:
  "''binary'' \<in> set required_columns \<and> (example_table(''binary'' := None)) ''binary'' = None
   \<and> main example_env (example_table(''binary'' := None)) 0
       = (no_output, Some (KeyError Column ''binary''))"
proof -
  have r: "''binary'' \<in> set required_columns" by (simp add: required_columns_def)
  have n: "(example_table(''binary'' := None)) ''binary'' = None" by simp
  from missing_column_no_output[of "''binary''" "example_table(''binary'' := None)" example_env 0,
      OF r n] r n show ?thesis
    by (auto simp: required_columns_def example_table_def)
qed

text \<open>
  Claim C9 does not hold of the code. The featurizer hands its \<open>randomSeed\<close> to
  \<open>EmbedMolecule\<close> as the second positional argument, which is \<open>maxAttempts\<close>; no seed
  reaches the embedding, which draws from the process-wide random source. Two calls with
  the same descriptor and the same seed, one after the other, return different
  coordinates in the second example environment.
\<close>

theorem same_seed_different_conformers:
  "get_3dG_from_smi drifting_env ''[H][H]'' 0xF00A 0 = (Inr dihydrogen_features, 1)
   \<and> get_3dG_from_smi drifting_env ''[H][H]'' 0xF00A 1 = (Inr second_dihydrogen_features, 2)
   \<and> crds_3d dihydrogen_features \<noteq> crds_3d second_dihydrogen_features"
  by (simp add: get_3dG_from_smi_def drifting_env_def drifting_conformer_def example_env_def
      dihydrogen_def H_atom_def example_conformer_def
      atom_step_def ebind_def lookup_def str_bool_def GetAtomPosition_def list_of_point_def
      empty_acc_def squareform_pdist_def enumerate_eq_zip upt2 Let_def dihydrogen_features_def
      second_dihydrogen_features_def
      fill_diagonal_def np_where_def vstack_def le_4_def euclidean_def sqrt_le_4 power2_eq_square)

text \<open>
  Claim C10. In every successful call of the featurizer the six per-atom outputs have one
  entry per atom of the molecule, every row of the coordinates has three components, and
  every index in the bond edges and in the proximity edges is below the atom count. The
  bonds of a toolkit molecule join atoms of that molecule (\<open>bonds_in_range\<close>).
\<close>

theorem outputs_sized_by_atom_count:
  assumes "get_3dG_from_smi E smi seed rng = (Inr out, rng')"
    and "MolFromSmiles_AddHs E smi = Some m"
    and "bonds_in_range m"
  shows "length (atomids out) = length (GetAtoms m)
     \<and> length (is_ring out) = length (GetAtoms m)
     \<and> length (hyb out) = length (GetAtoms m)
     \<and> length (arom out) = length (GetAtoms m)
     \<and> length (crds_3d out) = length (GetAtoms m)
     \<and> length (tokeep out) = length (GetAtoms m)
     \<and> (\<forall>row \<in> set (crds_3d out). length row = 3)
     \<and> (\<forall>(a, b) \<in> edges (edge_2d out) \<union> edges (edge_3d out).
           a < length (GetAtoms m) \<and> b < length (GetAtoms m))"
proof -
  from assms(1,2) obtain conf acc M where
    al: "atom_loop E conf (enumerate 0 (GetAtoms m)) empty_acc = Inr acc"
    and sq: "squareform_pdist (pdist_metric E) (acc_crds_3d acc) = Inr M"
    and o: "atomids out = acc_atomids acc" "is_ring out = acc_is_ring acc" "hyb out = acc_hyb acc"
    "arom out = acc_arom acc" "crds_3d out = acc_crds_3d acc" "tokeep out = acc_tokeep acc"
    and e2: "edge_2d out = bond_loop (GetBonds m) ([], [])"
    and e3: "edge_3d out = vstack (np_where le_4 (fill_diagonal M PInf))"
    by (auto elim!: get_3dG_from_smi_Inr)
  have L: "length (acc_atomids acc) = length (GetAtoms m)"
    "length (acc_is_ring acc) = length (GetAtoms m)"
    "length (acc_hyb acc) = length (GetAtoms m)"
    "length (acc_arom acc) = length (GetAtoms m)"
    "length (acc_crds_3d acc) = length (GetAtoms m)"
    "length (acc_tokeep acc) = length (GetAtoms m)"
    "\<forall>row \<in> set (acc_crds_3d acc). length row = 3"
    using atom_loop_lengths[OF al] by (auto simp: empty_acc_def)
  have B: "\<forall>(a, b) \<in> edges (edge_2d out). a < length (GetAtoms m) \<and> b < length (GetAtoms m)"
    using assms(3) unfolding e2 by (auto simp: bond_loop_edges bonds_in_range_def list_all_iff)
  have P: "\<forall>(a, b) \<in> edges (edge_3d out). a < length (GetAtoms m) \<and> b < length (GetAtoms m)"
    unfolding e3 edges_vstack edge_3d_char[OF sq] using L(5) by auto
  show ?thesis using L B P unfolding o by auto
qed

theorem outputs_sized_by_atom_count_witness:
  "get_3dG_from_smi example_env ''O'' 0xF00A 0 = (Inr water_features, 1)
   \<and> MolFromSmiles_AddHs example_env ''O'' = Some water
   \<and> bonds_in_range water
   \<and> length (GetAtoms water) = 3
   \<and> length (atomids water_features) = 3 \<and> length (crds_3d water_features) = 3
   \<and> length (tokeep water_features) = 3"
proof -
  have f: "get_3dG_from_smi example_env ''O'' 0xF00A 0 = (Inr water_features, 1)"
    by (simp add: example_water)
  have b: "bonds_in_range water"
    by (simp add: bonds_in_range_def water_def)
  have n: "length (GetAtoms water) = 3" by (simp add: water_def)
  from outputs_sized_by_atom_count[OF f example_parse_water b] f example_parse_water b n
  show ?thesis by simp
qed

end
